theory Spec2Isabelle
  imports Complex_Main
begin

section \<open>Values\<close>

text \<open>
  Python floats are idealised: a finite float is a real number (rounding and overflow are
  not modelled) and the three IEEE special values are kept apart, because
  \<^verbatim>\<open>numpy.log10\<close> produces them instead of raising.
\<close>

datatype npfloat = Fin real | PosInf | NegInf | NaN

text \<open>
  What \<^verbatim>\<open>yaml.safe_load\<close> hands to the autoplotter. A mapping keeps its
  entries in file order; its keys are strings.
\<close>

datatype yaml =
    YNull
  | YBool bool
  | YInt int
  | YFloat npfloat
  | YStr string
  | YSeq "yaml list"
  | YMap "(string \<times> yaml) list"

text \<open>
  The exceptions that can leave the code: Python's own, the package's
  \<^verbatim>\<open>AutoPlotterError\<close> with its message, and whatever a library raises.
\<close>

datatype error =
    KeyError string
  | TypeError
  | ValueError
  | OverflowError
  | AttributeError
  | AutoPlotterError string
  | LibraryError string

definition bnd :: "error + 'a \<Rightarrow> ('a \<Rightarrow> error + 'b) \<Rightarrow> error + 'b" where
  "bnd m f = (case m of Inl e \<Rightarrow> Inl e | Inr v \<Rightarrow> f v)"

text \<open>\<^verbatim>\<open>try: m  except KeyError: h\<close>; every other exception passes through.\<close>

definition except_KeyError :: "error + 'a \<Rightarrow> error + 'a \<Rightarrow> error + 'a" where
  "except_KeyError m h = (case m of Inl (KeyError k) \<Rightarrow> h | _ \<Rightarrow> m)"

text \<open>\<^verbatim>\<open>for item in items: body(item)\<close> on the object under construction.\<close>

fun for_each :: "('a \<Rightarrow> 's \<Rightarrow> error + 's) \<Rightarrow> 'a list \<Rightarrow> 's \<Rightarrow> error + 's" where
  "for_each body [] s = Inr s"
| "for_each body (i # is) s = bnd (body i s) (for_each body is)"

text \<open>\<^verbatim>\<open>v[k]\<close> for a string key: only a mapping can be subscripted by one.\<close>

fun subscript :: "yaml \<Rightarrow> string \<Rightarrow> error + yaml" where
  "subscript (YMap m) k = (case map_of m k of None \<Rightarrow> Inl (KeyError k) | Some v \<Rightarrow> Inr v)"
| "subscript v k = Inl TypeError"

text \<open>\<^verbatim>\<open>bool(v)\<close>: Python truthiness.\<close>

fun py_bool :: "yaml \<Rightarrow> bool" where
  "py_bool YNull = False"
| "py_bool (YBool b) = b"
| "py_bool (YInt i) = (i \<noteq> 0)"
| "py_bool (YFloat f) = (f \<noteq> Fin 0)"
| "py_bool (YStr s) = (s \<noteq> [])"
| "py_bool (YSeq vs) = (vs \<noteq> [])"
| "py_bool (YMap m) = (m \<noteq> [])"

subsection \<open>Library behaviour taken as given\<close>

text \<open>
  The parts of the Python runtime and of the libraries that the autoplotter calls and that
  are not part of it: parsing a string as a number, \<^verbatim>\<open>str()\<close> of a loaded value
  that is not a string, the unit registry of \<^verbatim>\<open>unyt\<close> (a unit is named by its
  canonical expression), the factor between two units, and the checks made by the
  constructor of \<^verbatim>\<open>VelociraptorLine\<close> (module
  \<^verbatim>\<open>velociraptor.autoplotter.lines\<close>). Every definition below takes them as the
  parameter \<open>ext\<close>.
\<close>

record externals =
  float_of_str :: "string \<Rightarrow> npfloat option"
  int_of_str :: "string \<Rightarrow> int option"
  str_of_value :: "yaml \<Rightarrow> string"
  unit_registry :: "yaml \<Rightarrow> error + string"
  conversion_factor :: "string \<Rightarrow> string \<Rightarrow> error + real"
  line_check :: "string \<Rightarrow> yaml \<Rightarrow> error option"

text \<open>
  \<^verbatim>\<open>float(v)\<close>. An integer converts when it rounds to a double, that is when its
  magnitude is below \<open>2^1024 - 2^970\<close>, half an ulp above the largest double; a larger
  one is an \<^verbatim>\<open>OverflowError\<close>.
\<close>

definition float_overflow_bound :: int where
  "float_overflow_bound = 2 ^ 1024 - 2 ^ 970"

fun py_float :: "externals \<Rightarrow> yaml \<Rightarrow> error + npfloat" where
  "py_float ext (YInt i) =
     (if \<bar>i\<bar> < float_overflow_bound then Inr (Fin (of_int i)) else Inl OverflowError)"
| "py_float ext (YFloat f) = Inr f"
| "py_float ext (YBool b) = Inr (Fin (if b then 1 else 0))"
| "py_float ext (YStr s) =
     (case float_of_str ext s of None \<Rightarrow> Inl ValueError | Some f \<Rightarrow> Inr f)"
| "py_float ext v = Inl TypeError"

text \<open>\<^verbatim>\<open>int(v)\<close>: a float is truncated towards zero.\<close>

fun py_int :: "externals \<Rightarrow> yaml \<Rightarrow> error + int" where
  "py_int ext (YInt i) = Inr i"
| "py_int ext (YBool b) = Inr (if b then 1 else 0)"
| "py_int ext (YFloat (Fin r)) = Inr (if 0 \<le> r then \<lfloor>r\<rfloor> else \<lceil>r\<rceil>)"
| "py_int ext (YFloat NaN) = Inl ValueError"
| "py_int ext (YFloat f) = Inl OverflowError"
| "py_int ext (YStr s) =
     (case int_of_str ext s of None \<Rightarrow> Inl ValueError | Some i \<Rightarrow> Inr i)"
| "py_int ext v = Inl TypeError"

text \<open>\<^verbatim>\<open>str(v)\<close> inside an f-string: a string is itself.\<close>

fun py_str :: "externals \<Rightarrow> yaml \<Rightarrow> string" where
  "py_str ext (YStr s) = s"
| "py_str ext v = str_of_value ext v"

text \<open>
  \<^verbatim>\<open>repr\<close> of a list of strings that hold no quote, backslash or control
  character, as the two constant lists of the module do.
\<close>

fun join_comma :: "string list \<Rightarrow> string" where
  "join_comma [] = []"
| "join_comma [s] = s"
| "join_comma (s # ss) = s @ '', '' @ join_comma ss"

definition repr_str_list :: "string list \<Rightarrow> string" where
  "repr_str_list ss = ''['' @ join_comma (map (\<lambda>s. [CHR 0x27] @ s @ [CHR 0x27]) ss) @ '']''"

subsection \<open>Float arithmetic with the special values\<close>

fun fneg :: "npfloat \<Rightarrow> npfloat" where
  "fneg (Fin a) = Fin (- a)"
| "fneg PosInf = NegInf"
| "fneg NegInf = PosInf"
| "fneg NaN = NaN"

fun fadd :: "npfloat \<Rightarrow> npfloat \<Rightarrow> npfloat" where
  "fadd (Fin a) (Fin b) = Fin (a + b)"
| "fadd NaN b = NaN"
| "fadd a NaN = NaN"
| "fadd PosInf NegInf = NaN"
| "fadd NegInf PosInf = NaN"
| "fadd PosInf b = PosInf"
| "fadd NegInf b = NegInf"
| "fadd a PosInf = PosInf"
| "fadd a NegInf = NegInf"

definition fsub :: "npfloat \<Rightarrow> npfloat \<Rightarrow> npfloat" where
  "fsub a b = fadd a (fneg b)"

text \<open>The product of a float with a finite factor (\<open>0 * inf\<close> is NaN).\<close>

fun fscale :: "real \<Rightarrow> npfloat \<Rightarrow> npfloat" where
  "fscale k (Fin a) = Fin (k * a)"
| "fscale k NaN = NaN"
| "fscale k PosInf = (if 0 < k then PosInf else if k < 0 then NegInf else NaN)"
| "fscale k NegInf = (if 0 < k then NegInf else if k < 0 then PosInf else NaN)"

text \<open>The quotient of a float by a positive finite divisor.\<close>

fun fdiv :: "npfloat \<Rightarrow> real \<Rightarrow> npfloat" where
  "fdiv (Fin a) d = Fin (a / d)"
| "fdiv f d = f"

text \<open>
  \<^verbatim>\<open>numpy.log10\<close> raises nothing on a float: zero gives \<open>-inf\<close> and a negative
  number gives NaN (with a warning).
\<close>

fun log10 :: "npfloat \<Rightarrow> npfloat" where
  "log10 (Fin a) = (if 0 < a then Fin (log 10 a) else if a = 0 then NegInf else NaN)"
| "log10 PosInf = PosInf"
| "log10 NegInf = NaN"
| "log10 NaN = NaN"

text \<open>\<^verbatim>\<open>10.0 ** f\<close>.\<close>

fun pow10 :: "npfloat \<Rightarrow> npfloat" where
  "pow10 (Fin a) = Fin (10 powr a)"
| "pow10 PosInf = PosInf"
| "pow10 NegInf = Fin 0"
| "pow10 NaN = NaN"

text \<open>
  \<^verbatim>\<open>numpy.linspace(start, stop, num)\<close> with the end point included, as numpy writes
  it: \<open>num\<close> samples \<open>i * step + start\<close> for \<open>i = 0, ..., num - 1\<close> with
  \<open>step = (stop - start) / (num - 1)\<close>, the last one overwritten by \<open>stop\<close>; a negative
  \<open>num\<close> is a \<^verbatim>\<open>ValueError\<close>.
\<close>

definition linspace :: "npfloat \<Rightarrow> npfloat \<Rightarrow> int \<Rightarrow> error + npfloat list" where
  "linspace start stop num =
     (if num < 0 then Inl ValueError
      else
        let dv = num - 1;
            delta = fsub stop start;
            idx = map real [0..<nat num];
            y = (if 0 < dv then
                   (let step = fdiv delta (of_int dv) in
                    if step = Fin 0
                    then map (\<lambda>i. fadd (fscale (i / of_int dv) delta) start) idx
                    else map (\<lambda>i. fadd (fscale i step) start) idx)
                 else map (\<lambda>i. fadd (fscale i delta) start) idx)
        in Inr (if 1 < num then y[nat num - 1 := stop] else y))"

text \<open>\<^verbatim>\<open>numpy.logspace(start, stop, num)\<close>: ten to the power of the linspace.\<close>

definition logspace :: "npfloat \<Rightarrow> npfloat \<Rightarrow> int \<Rightarrow> error + npfloat list" where
  "logspace start stop num = bnd (linspace start stop num) (\<lambda>y. Inr (map pow10 y))"

section \<open>The plot object\<close>

text \<open>
  \<^verbatim>\<open>unyt_quantity(value, units=u)\<close> and \<^verbatim>\<open>unyt_array(values, units=u)\<close>: numbers
  with the unit they are expressed in.
\<close>

record quantity =
  q_value :: npfloat
  q_units :: string

record unyt_array =
  arr_values :: "npfloat list"
  arr_units :: string

definition unyt_quantity :: "externals \<Rightarrow> npfloat \<Rightarrow> yaml \<Rightarrow> error + quantity" where
  "unyt_quantity ext v u =
     bnd (unit_registry ext u) (\<lambda>un. Inr \<lparr>q_value = v, q_units = un\<rparr>)"

text \<open>
  Modelled from the spec: the class \<^verbatim>\<open>VelociraptorLine\<close> of the module
  \<^verbatim>\<open>velociraptor.autoplotter.lines\<close>, which is not among the sources. By the
  spec a line overlay holds its kind and the sub-mapping it was given, passed on unread,
  and drawing it is a collaborator's part, handed the series. The checks of the
  constructor are the parameter \<open>line_check\<close>.
\<close>

datatype line = Line string yaml

definition VelociraptorLine :: "externals \<Rightarrow> string \<Rightarrow> yaml \<Rightarrow> error + line" where
  "VelociraptorLine ext line_type line_data =
     (case line_check ext line_type line_data of
        Some e \<Rightarrow> Inl e
      | None \<Rightarrow> Inr (Line line_type line_data))"

definition valid_plot_types :: "string list" where
  "valid_plot_types = [''scatter'', ''2dhistogram'', ''massfunction'']"

definition valid_line_types :: "string list" where
  "valid_line_types = [''median'', ''mean'']"

text \<open>
  The attributes of a \<^verbatim>\<open>VelociraptorPlot\<close>. An attribute that no statement has
  assigned yet is \<open>None\<close>; Python's \<^verbatim>\<open>None\<close> as the value of an assigned
  attribute is \<open>Some YNull\<close> for a loaded value and \<open>Some None\<close> for a line. The
  attributes \<^verbatim>\<open>x\<close> and \<^verbatim>\<open>y\<close> are named \<open>x_quantity\<close> and \<open>y_quantity\<close>;
  a limit pair is the two-element list \<^verbatim>\<open>[start, end]\<close>.
\<close>

record velociraptor_plot =
  filename :: string
  data :: yaml
  plot_type :: "yaml option"
  x_quantity :: "yaml option"
  y_quantity :: "yaml option"
  x_log :: "bool option"
  y_log :: "bool option"
  x_units :: "quantity option"
  y_units :: "quantity option"
  x_lim :: "(quantity option \<times> quantity option) option"
  y_lim :: "(quantity option \<times> quantity option) option"
  x_label_override :: "yaml option"
  y_label_override :: "yaml option"
  mean_line :: "line option option"
  median_line :: "line option option"
  number_of_bins :: "int option"
  x_bins :: "unyt_array option"
  y_bins :: "unyt_array option"

text \<open>
  The code names an attribute of one axis \<^verbatim>\<open>f"{coordinate}_lim"\<close> and reaches it with
  \<^verbatim>\<open>setattr\<close> and \<^verbatim>\<open>getattr\<close>; the coordinate is only ever \<^verbatim>\<open>"x"\<close> or
  \<^verbatim>\<open>"y"\<close>.
\<close>

datatype coord = X | Y

fun coord_name :: "coord \<Rightarrow> string" where
  "coord_name X = ''x''"
| "coord_name Y = ''y''"

fun set_quantity :: "coord \<Rightarrow> yaml \<Rightarrow> velociraptor_plot \<Rightarrow> velociraptor_plot" where
  "set_quantity X v self = self\<lparr>x_quantity := Some v\<rparr>"
| "set_quantity Y v self = self\<lparr>y_quantity := Some v\<rparr>"

fun set_units :: "coord \<Rightarrow> quantity \<Rightarrow> velociraptor_plot \<Rightarrow> velociraptor_plot" where
  "set_units X v self = self\<lparr>x_units := Some v\<rparr>"
| "set_units Y v self = self\<lparr>y_units := Some v\<rparr>"

fun set_log :: "coord \<Rightarrow> bool \<Rightarrow> velociraptor_plot \<Rightarrow> velociraptor_plot" where
  "set_log X v self = self\<lparr>x_log := Some v\<rparr>"
| "set_log Y v self = self\<lparr>y_log := Some v\<rparr>"

fun get_log :: "coord \<Rightarrow> velociraptor_plot \<Rightarrow> bool option" where
  "get_log X self = x_log self"
| "get_log Y self = y_log self"

fun set_lim ::
  "coord \<Rightarrow> quantity option \<times> quantity option \<Rightarrow> velociraptor_plot \<Rightarrow> velociraptor_plot" where
  "set_lim X v self = self\<lparr>x_lim := Some v\<rparr>"
| "set_lim Y v self = self\<lparr>y_lim := Some v\<rparr>"

fun get_lim :: "coord \<Rightarrow> velociraptor_plot \<Rightarrow> (quantity option \<times> quantity option) option" where
  "get_lim X self = x_lim self"
| "get_lim Y self = y_lim self"

fun set_label_override :: "coord \<Rightarrow> yaml \<Rightarrow> velociraptor_plot \<Rightarrow> velociraptor_plot" where
  "set_label_override X v self = self\<lparr>x_label_override := Some v\<rparr>"
| "set_label_override Y v self = self\<lparr>y_label_override := Some v\<rparr>"

fun set_bins :: "coord \<Rightarrow> unyt_array \<Rightarrow> velociraptor_plot \<Rightarrow> velociraptor_plot" where
  "set_bins X v self = self\<lparr>x_bins := Some v\<rparr>"
| "set_bins Y v self = self\<lparr>y_bins := Some v\<rparr>"

fun get_bins :: "coord \<Rightarrow> velociraptor_plot \<Rightarrow> unyt_array option" where
  "get_bins X self = x_bins self"
| "get_bins Y self = y_bins self"

fun get_units :: "coord \<Rightarrow> velociraptor_plot \<Rightarrow> quantity option" where
  "get_units X self = x_units self"
| "get_units Y self = y_units self"

text \<open>\<^verbatim>\<open>setattr(self, f"{line_type}_line", v)\<close> for the two line types.\<close>

definition set_line :: "string \<Rightarrow> line option \<Rightarrow> velociraptor_plot \<Rightarrow> velociraptor_plot" where
  "set_line line_type v self =
     (if line_type = ''median'' then self\<lparr>median_line := Some v\<rparr>
      else if line_type = ''mean'' then self\<lparr>mean_line := Some v\<rparr>
      else self)"

subsection \<open>Parsing one axis\<close>

text \<open>\<^verbatim>\<open>d[coordinate][key]\<close>, for \<open>d\<close> the mapping \<^verbatim>\<open>self.data\<close>.\<close>

definition axis_entry :: "yaml \<Rightarrow> coord \<Rightarrow> string \<Rightarrow> error + yaml" where
  "axis_entry d c key = bnd (subscript d (coord_name c)) (\<lambda>ax. subscript ax key)"

definition missing_quantity_message :: "coord \<Rightarrow> string \<Rightarrow> string" where
  "missing_quantity_message c name =
     ''You must provide an '' @ coord_name c @ ''-quantity and units to plot for '' @ name"

definition parse_coordinate_quantity ::
  "externals \<Rightarrow> coord \<Rightarrow> velociraptor_plot \<Rightarrow> error + velociraptor_plot" where
  "parse_coordinate_quantity ext c self =
     except_KeyError
       (bnd (axis_entry (data self) c ''quantity'') (\<lambda>q.
        bnd (axis_entry (data self) c ''units'') (\<lambda>u.
        bnd (unyt_quantity ext (Fin 1) u) (\<lambda>uq.
        Inr (set_units c uq (set_quantity c q self))))))
       (Inl (AutoPlotterError (missing_quantity_message c (filename self))))"

definition set_coordinate_quantity_none ::
  "externals \<Rightarrow> coord \<Rightarrow> velociraptor_plot \<Rightarrow> error + velociraptor_plot" where
  "set_coordinate_quantity_none ext c self =
     bnd (unyt_quantity ext (Fin 1) YNull) (\<lambda>uq.
     Inr (set_units c uq (set_quantity c YNull self)))"

text \<open>
  The right-hand side of one limit assignment,
  \<^verbatim>\<open>unyt_quantity(float(self.data[coordinate][key]), units=self.data[coordinate]["units"])\<close>,
  evaluated from left to right; \<open>d\<close> is \<^verbatim>\<open>self.data\<close>.
\<close>

definition limit_quantity ::
  "externals \<Rightarrow> yaml \<Rightarrow> coord \<Rightarrow> string \<Rightarrow> error + quantity" where
  "limit_quantity ext d c key =
     bnd (axis_entry d c key) (\<lambda>v.
     bnd (py_float ext v) (\<lambda>f.
     bnd (axis_entry d c ''units'') (\<lambda>u.
     unyt_quantity ext f u)))"

text \<open>\<^verbatim>\<open>getattr(self, f"{coordinate}_lim")[i] = q\<close> for \<open>i = 0\<close> and \<open>i = 1\<close>.\<close>

definition store_lim_0 ::
  "coord \<Rightarrow> quantity \<Rightarrow> velociraptor_plot \<Rightarrow> error + velociraptor_plot" where
  "store_lim_0 c q self =
     (case get_lim c self of
        None \<Rightarrow> Inl AttributeError
      | Some (lo, hi) \<Rightarrow> Inr (set_lim c (Some q, hi) self))"

definition store_lim_1 ::
  "coord \<Rightarrow> quantity \<Rightarrow> velociraptor_plot \<Rightarrow> error + velociraptor_plot" where
  "store_lim_1 c q self =
     (case get_lim c self of
        None \<Rightarrow> Inl AttributeError
      | Some (lo, hi) \<Rightarrow> Inr (set_lim c (lo, Some q) self))"

definition parse_coordinate_limit ::
  "externals \<Rightarrow> coord \<Rightarrow> velociraptor_plot \<Rightarrow> error + velociraptor_plot" where
  "parse_coordinate_limit ext c self =
     (let self0 = set_lim c (None, None) self in
      bnd (except_KeyError
             (bnd (limit_quantity ext (data self0) c ''start'') (\<lambda>q. store_lim_0 c q self0))
             (Inr self0)) (\<lambda>self1.
      except_KeyError
        (bnd (limit_quantity ext (data self1) c ''end'') (\<lambda>q. store_lim_1 c q self1))
        (Inr self1)))"

definition parse_coordinate_log ::
  "externals \<Rightarrow> coord \<Rightarrow> velociraptor_plot \<Rightarrow> error + velociraptor_plot" where
  "parse_coordinate_log ext c self =
     except_KeyError
       (bnd (axis_entry (data self) c ''log'') (\<lambda>v.
        Inr (set_log c (py_bool v) self)))
       (Inr (set_log c True self))"

definition parse_coordinate_label_override ::
  "externals \<Rightarrow> coord \<Rightarrow> velociraptor_plot \<Rightarrow> error + velociraptor_plot" where
  "parse_coordinate_label_override ext c self =
     except_KeyError
       (bnd (axis_entry (data self) c ''label_override'') (\<lambda>v.
        Inr (set_label_override c v self)))
       (Inr (set_label_override c YNull self))"

subsection \<open>Lines and bins\<close>

definition parse_line ::
  "externals \<Rightarrow> string \<Rightarrow> velociraptor_plot \<Rightarrow> error + velociraptor_plot" where
  "parse_line ext line_type self =
     except_KeyError
       (bnd (subscript (data self) line_type) (\<lambda>d.
        bnd (VelociraptorLine ext line_type d) (\<lambda>l.
        Inr (set_line line_type (Some l) self))))
       (Inr (set_line line_type None self))"

definition parse_lines :: "externals \<Rightarrow> velociraptor_plot \<Rightarrow> error + velociraptor_plot" where
  "parse_lines ext self = for_each (parse_line ext) valid_line_types self"

definition parse_number_of_bins ::
  "externals \<Rightarrow> velociraptor_plot \<Rightarrow> error + velociraptor_plot" where
  "parse_number_of_bins ext self =
     except_KeyError
       (bnd (subscript (data self) ''number_of_bins'') (\<lambda>v.
        bnd (py_int ext v) (\<lambda>n.
        Inr (self\<lparr>number_of_bins := Some n\<rparr>))))
       (Inr (self\<lparr>number_of_bins := Some 128\<rparr>))"

text \<open>
  \<^verbatim>\<open>numpy.log10\<close> of a limit: \<^verbatim>\<open>None\<close> is a \<^verbatim>\<open>TypeError\<close>, a quantity gives
  the logarithm of its value, stripped of the unit.
\<close>

fun log10_limit :: "quantity option \<Rightarrow> error + npfloat" where
  "log10_limit None = Inl TypeError"
| "log10_limit (Some q) = Inr (log10 (q_value q))"

text \<open>
  \<^verbatim>\<open>numpy.linspace\<close> of two limits: the sample count is checked first, then
  \<^verbatim>\<open>None * 1.0\<close> is a \<^verbatim>\<open>TypeError\<close>; the samples carry the unit of the limits.
  Both limits of one axis are built from the same \<^verbatim>\<open>units\<close> entry; arithmetic
  across two different units is left to the unit library and stands here as its error.
\<close>

fun linspace_limits ::
  "quantity option \<Rightarrow> quantity option \<Rightarrow> int \<Rightarrow> error + unyt_array" where
  "linspace_limits start stop num =
     (if num < 0 then Inl ValueError
      else case start of
        None \<Rightarrow> Inl TypeError
      | Some s \<Rightarrow>
         (case stop of
            None \<Rightarrow> Inl TypeError
          | Some e \<Rightarrow>
             if q_units s \<noteq> q_units e then Inl (LibraryError ''UnitOperationError'')
             else bnd (linspace (q_value s) (q_value e) num) (\<lambda>vs.
                  Inr \<lparr>arr_values = vs, arr_units = q_units s\<rparr>)))"

definition parse_coordinate_histogram_bin ::
  "coord \<Rightarrow> velociraptor_plot \<Rightarrow> error + velociraptor_plot" where
  "parse_coordinate_histogram_bin c self =
     (case get_lim c self of
        None \<Rightarrow> Inl AttributeError
      | Some (start, stop) \<Rightarrow>
         (case get_log c self of
            None \<Rightarrow> Inl AttributeError
          | Some True \<Rightarrow>
              bnd (log10_limit start) (\<lambda>ls.
              bnd (log10_limit stop) (\<lambda>le.
              case number_of_bins self of
                None \<Rightarrow> Inl AttributeError
              | Some n \<Rightarrow>
                  bnd (logspace ls le n) (\<lambda>vs.
                  case start of
                    None \<Rightarrow> Inl AttributeError
                  | Some s \<Rightarrow>
                      Inr (set_bins c \<lparr>arr_values = vs, arr_units = q_units s\<rparr> self))))
          | Some False \<Rightarrow>
              (case number_of_bins self of
                 None \<Rightarrow> Inl AttributeError
               | Some n \<Rightarrow>
                   bnd (linspace_limits start stop n) (\<lambda>b. Inr (set_bins c b self)))))"

subsection \<open>One procedure for each plot type\<close>

text \<open>The body of the loop over \<^verbatim>\<open>["x", "y"]\<close> in \<^verbatim>\<open>_parse_scatter\<close>.\<close>

definition scatter_coordinate ::
  "externals \<Rightarrow> coord \<Rightarrow> velociraptor_plot \<Rightarrow> error + velociraptor_plot" where
  "scatter_coordinate ext c self =
     bnd (parse_coordinate_quantity ext c self) (\<lambda>s1.
     bnd (parse_coordinate_log ext c s1) (\<lambda>s2.
     bnd (parse_coordinate_limit ext c s2) (\<lambda>s3.
     parse_coordinate_label_override ext c s3)))"

definition parse_scatter :: "externals \<Rightarrow> velociraptor_plot \<Rightarrow> error + velociraptor_plot" where
  "parse_scatter ext self =
     bnd (for_each (scatter_coordinate ext) [X, Y] self) (parse_lines ext)"

definition parse_2dhistogram ::
  "externals \<Rightarrow> velociraptor_plot \<Rightarrow> error + velociraptor_plot" where
  "parse_2dhistogram ext self =
     bnd (parse_scatter ext self) (\<lambda>s1.
     bnd (parse_number_of_bins ext s1) (\<lambda>s2.
     for_each parse_coordinate_histogram_bin [X, Y] s2))"

text \<open>The body of the loop over \<^verbatim>\<open>["x", "y"]\<close> in \<^verbatim>\<open>_parse_massfunction\<close>.\<close>

definition massfunction_coordinate ::
  "externals \<Rightarrow> coord \<Rightarrow> velociraptor_plot \<Rightarrow> error + velociraptor_plot" where
  "massfunction_coordinate ext c self =
     bnd (parse_coordinate_log ext c self) (\<lambda>s1.
     bnd (parse_coordinate_limit ext c s1) (\<lambda>s2.
     parse_coordinate_label_override ext c s2))"

definition parse_massfunction ::
  "externals \<Rightarrow> velociraptor_plot \<Rightarrow> error + velociraptor_plot" where
  "parse_massfunction ext self =
     bnd (parse_coordinate_quantity ext X self) (\<lambda>s1.
     bnd (set_coordinate_quantity_none ext Y s1) (\<lambda>s2.
     bnd (for_each (massfunction_coordinate ext) [X, Y] s2) (\<lambda>s3.
     bnd (parse_number_of_bins ext s3) (\<lambda>s4.
     parse_coordinate_histogram_bin X s4))))"

definition parse_histogram ::
  "externals \<Rightarrow> velociraptor_plot \<Rightarrow> error + velociraptor_plot" where
  "parse_histogram ext self = parse_massfunction ext self"

text \<open>
  \<^verbatim>\<open>getattr(self, f"_parse_{self.plot_type}")()\<close>: the methods of the class that a
  plot type can name.
\<close>

definition parse_method ::
  "externals \<Rightarrow> string \<Rightarrow> velociraptor_plot \<Rightarrow> error + velociraptor_plot" where
  "parse_method ext name self =
     (if name = ''scatter'' then parse_scatter ext self
      else if name = ''2dhistogram'' then parse_2dhistogram ext self
      else if name = ''massfunction'' then parse_massfunction ext self
      else if name = ''histogram'' then parse_histogram ext self
      else Inl AttributeError)"

definition invalid_type_message :: "externals \<Rightarrow> yaml \<Rightarrow> string" where
  "invalid_type_message ext t =
     ''Plot type '' @ py_str ext t @ '' is not valid. Please choose from ''
       @ repr_str_list valid_plot_types @ ''.''"

definition parse_data :: "externals \<Rightarrow> velociraptor_plot \<Rightarrow> error + velociraptor_plot" where
  "parse_data ext self =
     bnd (except_KeyError
            (bnd (subscript (data self) ''type'') (\<lambda>t. Inr (self\<lparr>plot_type := Some t\<rparr>)))
            (Inr (self\<lparr>plot_type := Some (YStr ''scatter'')\<rparr>))) (\<lambda>s1.
     case plot_type s1 of
       None \<Rightarrow> Inl AttributeError
     | Some t \<Rightarrow>
         if t \<notin> set (map YStr valid_plot_types)
         then Inl (AutoPlotterError (invalid_type_message ext t))
         else parse_method ext (py_str ext t) s1)"

definition new_plot :: "string \<Rightarrow> yaml \<Rightarrow> velociraptor_plot" where
  "new_plot name d =
     \<lparr>filename = name, data = d, plot_type = None,
      x_quantity = None, y_quantity = None, x_log = None, y_log = None,
      x_units = None, y_units = None, x_lim = None, y_lim = None,
      x_label_override = None, y_label_override = None,
      mean_line = None, median_line = None, number_of_bins = None,
      x_bins = None, y_bins = None\<rparr>"

definition VelociraptorPlot :: "externals \<Rightarrow> string \<Rightarrow> yaml \<Rightarrow> error + velociraptor_plot" where
  "VelociraptorPlot ext name d = parse_data ext (new_plot name d)"

subsection \<open>The autoplotter\<close>

text \<open>
  \<^verbatim>\<open>[VelociraptorPlot(filename, plot) for filename, plot in self.yaml.items()]\<close>: the
  comprehension builds the plots in file order and an exception in one constructor leaves
  it at once.
\<close>

fun build_plots ::
  "externals \<Rightarrow> (string \<times> yaml) list \<Rightarrow> error + velociraptor_plot list" where
  "build_plots ext [] = Inr []"
| "build_plots ext ((name, d) # rest) =
     bnd (VelociraptorPlot ext name d) (\<lambda>p.
     bnd (build_plots ext rest) (\<lambda>ps. Inr (p # ps)))"

fun parse_yaml :: "externals \<Rightarrow> yaml \<Rightarrow> error + velociraptor_plot list" where
  "parse_yaml ext (YMap entries) = build_plots ext entries"
| "parse_yaml ext v = Inl AttributeError"

section \<open>Rendering\<close>

text \<open>
  The collaborators of \<^verbatim>\<open>make_plot\<close>: the catalogue (a dotted path names a series,
  and the catalogue gives the volume that normalises a mass function), the functions of
  \<^verbatim>\<open>velociraptor.autoplotter.plot\<close>, the drawing of a line, the scale and limits of
  the axes, and the saving of the figure. Each receives values and answers with an error
  or with none; figures and axes themselves are not represented.
\<close>

record collaborators =
  catalogue_series :: "string \<Rightarrow> error + unyt_array"
  catalogue_box_volume :: "error + quantity"
  scatter_x_against_y :: "unyt_array \<Rightarrow> unyt_array \<Rightarrow> error option"
  histogram_x_against_y ::
    "unyt_array \<Rightarrow> unyt_array \<Rightarrow> unyt_array \<Rightarrow> unyt_array \<Rightarrow> error option"
  mass_function :: "unyt_array \<Rightarrow> unyt_array \<Rightarrow> quantity \<Rightarrow> error option"
  plot_line :: "line \<Rightarrow> string \<Rightarrow> unyt_array \<Rightarrow> unyt_array \<Rightarrow> error option"
  configure_axes ::
    "bool \<Rightarrow> bool \<Rightarrow> quantity option \<times> quantity option
      \<Rightarrow> quantity option \<times> quantity option \<Rightarrow> error option"
  decorate_and_save :: "string \<Rightarrow> error option"

text \<open>
  A step of a method that may raise and may assign to \<^verbatim>\<open>self\<close>: it returns its
  outcome together with the object as it is afterwards.
\<close>

type_synonym 'a step = "velociraptor_plot \<Rightarrow> (error + 'a) \<times> velociraptor_plot"

definition rbind :: "'a step \<Rightarrow> ('a \<Rightarrow> 'b step) \<Rightarrow> 'b step" where
  "rbind m f self = (case m self of (Inl e, s') \<Rightarrow> (Inl e, s') | (Inr v, s') \<Rightarrow> f v s')"

definition pure_step :: "error + 'a \<Rightarrow> 'a step" where
  "pure_step r self = (r, self)"

definition call_step :: "error option \<Rightarrow> unit step" where
  "call_step r self = ((case r of Some e \<Rightarrow> Inl e | None \<Rightarrow> Inr ()), self)"

text \<open>Reading an attribute: one that was never assigned is an \<^verbatim>\<open>AttributeError\<close>.\<close>

definition read_attr :: "(velociraptor_plot \<Rightarrow> 'a option) \<Rightarrow> 'a step" where
  "read_attr field self =
     ((case field self of None \<Rightarrow> Inl AttributeError | Some v \<Rightarrow> Inr v), self)"

text \<open>
  \<^verbatim>\<open>array.convert_to_units(target)\<close>, where the target is a quantity of value one
  that names its unit (as every \<^verbatim>\<open>x_units\<close> and \<^verbatim>\<open>y_units\<close> is): the values are
  multiplied by the factor between the two units and the array takes the new unit.
\<close>

definition convert_to_units :: "externals \<Rightarrow> unyt_array \<Rightarrow> quantity \<Rightarrow> error + unyt_array" where
  "convert_to_units ext arr target =
     bnd (conversion_factor ext (arr_units arr) (q_units target)) (\<lambda>f.
     Inr \<lparr>arr_values = map (fscale f) (arr_values arr), arr_units = q_units target\<rparr>)"

text \<open>
  \<^verbatim>\<open>reduce(getattr, self.x.split("."), catalogue)\<close> followed by
  \<^verbatim>\<open>x.convert_to_units(self.x_units)\<close>: only a string has \<^verbatim>\<open>split\<close>.
\<close>

fun quantity_path :: "yaml \<Rightarrow> error + string" where
  "quantity_path (YStr s) = Inr s"
| "quantity_path v = Inl AttributeError"

definition catalogue_quantity ::
  "externals \<Rightarrow> collaborators \<Rightarrow> coord \<Rightarrow> unyt_array step" where
  "catalogue_quantity ext col c =
     rbind (read_attr (case c of X \<Rightarrow> x_quantity | Y \<Rightarrow> y_quantity)) (\<lambda>q.
     rbind (pure_step (bnd (quantity_path q) (catalogue_series col))) (\<lambda>series.
     rbind (read_attr (get_units c)) (\<lambda>u.
     pure_step (convert_to_units ext series u))))"

text \<open>
  \<^verbatim>\<open>self.x_bins.convert_to_units(self.x_units)\<close>: the conversion is made in place, on
  the array that the plot object holds.
\<close>

definition convert_bins :: "externals \<Rightarrow> coord \<Rightarrow> unit step" where
  "convert_bins ext c =
     rbind (read_attr (get_bins c)) (\<lambda>b.
     rbind (read_attr (get_units c)) (\<lambda>u.
     rbind (pure_step (convert_to_units ext b u)) (\<lambda>b' self.
     (Inr (), set_bins c b' self))))"

definition set_scales_and_limits :: "collaborators \<Rightarrow> unit step" where
  "set_scales_and_limits col =
     rbind (read_attr x_log) (\<lambda>xl.
     rbind (read_attr y_log) (\<lambda>yl.
     rbind (read_attr x_lim) (\<lambda>xlim.
     rbind (read_attr y_lim) (\<lambda>ylim.
     call_step (configure_axes col xl yl xlim ylim)))))"

definition add_lines_to_axes :: "collaborators \<Rightarrow> unyt_array \<Rightarrow> unyt_array \<Rightarrow> unit step" where
  "add_lines_to_axes col xs ys =
     rbind (read_attr median_line) (\<lambda>med.
     rbind (call_step (case med of None \<Rightarrow> None | Some l \<Rightarrow> plot_line col l ''Median'' xs ys))
       (\<lambda>_.
     rbind (read_attr mean_line) (\<lambda>mn.
     call_step (case mn of None \<Rightarrow> None | Some l \<Rightarrow> plot_line col l ''Mean'' xs ys))))"

definition make_plot_scatter :: "externals \<Rightarrow> collaborators \<Rightarrow> unit step" where
  "make_plot_scatter ext col =
     rbind (catalogue_quantity ext col X) (\<lambda>xs.
     rbind (catalogue_quantity ext col Y) (\<lambda>ys.
     rbind (call_step (scatter_x_against_y col xs ys)) (\<lambda>_.
     rbind (set_scales_and_limits col) (\<lambda>_.
     add_lines_to_axes col xs ys))))"

definition make_plot_2dhistogram :: "externals \<Rightarrow> collaborators \<Rightarrow> unit step" where
  "make_plot_2dhistogram ext col =
     rbind (catalogue_quantity ext col X) (\<lambda>xs.
     rbind (catalogue_quantity ext col Y) (\<lambda>ys.
     rbind (convert_bins ext X) (\<lambda>_.
     rbind (convert_bins ext Y) (\<lambda>_.
     rbind (read_attr x_bins) (\<lambda>xb.
     rbind (read_attr y_bins) (\<lambda>yb.
     rbind (call_step (histogram_x_against_y col xs ys xb yb)) (\<lambda>_.
     rbind (set_scales_and_limits col) (\<lambda>_.
     add_lines_to_axes col xs ys))))))))"

definition make_plot_massfunction :: "externals \<Rightarrow> collaborators \<Rightarrow> unit step" where
  "make_plot_massfunction ext col =
     rbind (catalogue_quantity ext col X) (\<lambda>xs.
     rbind (convert_bins ext X) (\<lambda>_.
     rbind (read_attr x_bins) (\<lambda>xb.
     rbind (pure_step (catalogue_box_volume col)) (\<lambda>vol.
     rbind (call_step (mass_function col xs xb vol)) (\<lambda>_.
     set_scales_and_limits col)))))"

text \<open>
  \<^verbatim>\<open>getattr(self, f"_make_plot_{self.plot_type}")\<close>: the class has three such
  methods.
\<close>

definition make_plot_method :: "externals \<Rightarrow> collaborators \<Rightarrow> yaml \<Rightarrow> unit step" where
  "make_plot_method ext col t =
     (if t = YStr ''scatter'' then make_plot_scatter ext col
      else if t = YStr ''2dhistogram'' then make_plot_2dhistogram ext col
      else if t = YStr ''massfunction'' then make_plot_massfunction ext col
      else pure_step (Inl AttributeError))"

definition make_plot :: "externals \<Rightarrow> collaborators \<Rightarrow> string \<Rightarrow> string \<Rightarrow> unit step" where
  "make_plot ext col directory file_extension =
     rbind (read_attr plot_type) (\<lambda>t.
     rbind (make_plot_method ext col t) (\<lambda>_ self.
     call_step (decorate_and_save col (directory @ ''/'' @ filename self @ ''.'' @ file_extension))
       self))"

section \<open>What has been resolved on an axis\<close>

text \<open>
  Four properties of a plot object under construction, for the mapping \<open>d\<close> it is built
  from: the log flag of an axis is set, and is true when the lookup of \<^verbatim>\<open>log\<close> met a
  missing key; each limit that is set is the quantity read from \<open>d\<close>; the unit of the axis
  is the one that \<open>d\<close> names; the bins of the axis, when there are any, are in the unit of
  the axis.
\<close>

definition log_resolved :: "yaml \<Rightarrow> coord \<Rightarrow> velociraptor_plot \<Rightarrow> bool" where
  "log_resolved d c self =
     (case get_log c self of
        None \<Rightarrow> False
      | Some b \<Rightarrow>
         (case axis_entry d c ''log'' of Inl (KeyError k) \<Rightarrow> b | _ \<Rightarrow> True))"

definition lim_resolved :: "externals \<Rightarrow> yaml \<Rightarrow> coord \<Rightarrow> velociraptor_plot \<Rightarrow> bool" where
  "lim_resolved ext d c self =
     (case get_lim c self of
        None \<Rightarrow> False
      | Some (lo, hi) \<Rightarrow>
         (case lo of None \<Rightarrow> True | Some q \<Rightarrow> limit_quantity ext d c ''start'' = Inr q)
         \<and> (case hi of None \<Rightarrow> True | Some q \<Rightarrow> limit_quantity ext d c ''end'' = Inr q))"

definition units_resolved :: "externals \<Rightarrow> yaml \<Rightarrow> coord \<Rightarrow> velociraptor_plot \<Rightarrow> bool" where
  "units_resolved ext d c self =
     (case get_units c self of
        None \<Rightarrow> False
      | Some u \<Rightarrow>
         bnd (axis_entry d c ''units'') (unit_registry ext) = Inr (q_units u))"

definition bins_in_axis_units :: "coord \<Rightarrow> velociraptor_plot \<Rightarrow> bool" where
  "bins_in_axis_units c self =
     (case get_bins c self of
        None \<Rightarrow> True
      | Some b \<Rightarrow>
         (case get_units c self of None \<Rightarrow> False | Some u \<Rightarrow> arr_units b = q_units u))"

section \<open>Sample inputs\<close>

text \<open>
  A stand-in for the libraries where a statement needs concrete ones: no string is read
  as a number, every string names a unit and \<^verbatim>\<open>None\<close> is the dimensionless unit, a
  unit converts to itself with factor one, and a line accepts every sub-mapping.
\<close>

definition sample_externals :: externals where
  "sample_externals =
     \<lparr>float_of_str = (\<lambda>s. None),
      int_of_str = (\<lambda>s. None),
      str_of_value = (\<lambda>v. ''<value>''),
      unit_registry = (\<lambda>u. case u of
          YStr s \<Rightarrow> Inr s
        | YNull \<Rightarrow> Inr ''dimensionless''
        | _ \<Rightarrow> Inl (LibraryError ''UnitParseError'')),
      conversion_factor = (\<lambda>u v. if u = v then Inr 1 else Inl (LibraryError ''UnitConversionError'')),
      line_check = (\<lambda>t d. None)\<rparr>"

definition sample_collaborators :: collaborators where
  "sample_collaborators =
     \<lparr>catalogue_series =
        (\<lambda>path. Inr \<lparr>arr_values = [Fin 1, Fin 2, Fin 3], arr_units = ''Solar_Mass''\<rparr>),
      catalogue_box_volume = Inr \<lparr>q_value = Fin 1000, q_units = ''Mpc**3''\<rparr>,
      scatter_x_against_y = (\<lambda>xs ys. None),
      histogram_x_against_y = (\<lambda>xs ys xb yb. None),
      mass_function = (\<lambda>xs xb vol. None),
      plot_line = (\<lambda>l label xs ys. None),
      configure_axes = (\<lambda>xl yl xlim ylim. None),
      decorate_and_save = (\<lambda>path. None)\<rparr>"

text \<open>An axis from 0 to 10 on a linear scale, and one from 1 to 100 with no \<^verbatim>\<open>log\<close> key.\<close>

definition linear_axis :: yaml where
  "linear_axis =
     YMap [(''quantity'', YStr ''masses.mass_200crit''), (''units'', YStr ''Solar_Mass''),
           (''log'', YBool False), (''start'', YInt 0), (''end'', YInt 10)]"

definition log_axis :: yaml where
  "log_axis =
     YMap [(''quantity'', YStr ''masses.mass_200crit''), (''units'', YStr ''Solar_Mass''),
           (''start'', YInt 1), (''end'', YInt 100)]"

definition massfunction_linear :: yaml where
  "massfunction_linear =
     YMap [(''type'', YStr ''massfunction''), (''number_of_bins'', YInt 5), (''x'', linear_axis)]"

definition massfunction_log :: yaml where
  "massfunction_log =
     YMap [(''type'', YStr ''massfunction''), (''number_of_bins'', YInt 2), (''x'', log_axis)]"

definition histogram_linear :: yaml where
  "histogram_linear =
     YMap [(''type'', YStr ''histogram''), (''number_of_bins'', YInt 5), (''x'', linear_axis)]"

text \<open>A 2d histogram whose x axis has a \<^verbatim>\<open>start\<close> and no \<^verbatim>\<open>end\<close>.\<close>

definition open_axis :: yaml where
  "open_axis =
     YMap [(''quantity'', YStr ''masses.mass_200crit''), (''units'', YStr ''Solar_Mass''),
           (''start'', YInt 1)]"

definition histogram2d_open :: yaml where
  "histogram2d_open =
     YMap [(''type'', YStr ''2dhistogram''), (''x'', open_axis), (''y'', log_axis)]"

definition histogram2d_linear :: yaml where
  "histogram2d_linear =
     YMap [(''type'', YStr ''2dhistogram''), (''number_of_bins'', YInt 3),
           (''x'', linear_axis), (''y'', linear_axis)]"

text \<open>A scatter plot that names no type, and entries that cannot be built.\<close>

definition plain_axis :: yaml where
  "plain_axis = YMap [(''quantity'', YStr ''masses.mass_200crit''), (''units'', YStr ''Solar_Mass'')]"

definition scatter_plain :: yaml where
  "scatter_plain = YMap [(''x'', plain_axis), (''y'', plain_axis)]"

definition pie_chart :: yaml where
  "pie_chart = YMap [(''type'', YStr ''pie''), (''x'', plain_axis), (''y'', plain_axis)]"

definition scatter_without_quantity :: yaml where
  "scatter_without_quantity =
     YMap [(''type'', YStr ''scatter''), (''x'', YMap [(''units'', YStr ''Solar_Mass'')]),
           (''y'', plain_axis)]"

text \<open>A mass function on a log axis that starts at zero.\<close>

definition massfunction_from_zero :: yaml where
  "massfunction_from_zero =
     YMap [(''type'', YStr ''massfunction''), (''number_of_bins'', YInt 2),
           (''x'', YMap [(''quantity'', YStr ''masses.mass_200crit''),
                         (''units'', YStr ''Solar_Mass''), (''start'', YInt 0), (''end'', YInt 100)])]"

text \<open>A mass function with a lower y limit and no y units, and one with no bin count.\<close>

definition massfunction_y_start :: yaml where
  "massfunction_y_start =
     YMap [(''type'', YStr ''massfunction''), (''number_of_bins'', YInt 2), (''x'', log_axis),
           (''y'', YMap [(''start'', YFloat (Fin 0.001))])]"

definition massfunction_default_bins :: yaml where
  "massfunction_default_bins = YMap [(''type'', YStr ''massfunction''), (''x'', linear_axis)]"

text \<open>Whether one string occurs in another.\<close>

fun starts_with :: "string \<Rightarrow> string \<Rightarrow> bool" where
  "starts_with [] hay = True"
| "starts_with (a # as) [] = False"
| "starts_with (a # as) (b # bs) = (a = b \<and> starts_with as bs)"

fun occurs_in :: "string \<Rightarrow> string \<Rightarrow> bool" where
  "occurs_in needle [] = (needle = [])"
| "occurs_in needle (b # bs) = (starts_with needle (b # bs) \<or> occurs_in needle bs)"

section \<open>Proofs\<close>

text \<open>
  The equations of the attribute accessors are applied on request only, so that a
  statement about an arbitrary coordinate keeps its shape.
\<close>

lemmas attr_simps =
  set_quantity.simps set_units.simps set_log.simps get_log.simps set_lim.simps get_lim.simps
  set_label_override.simps set_bins.simps get_bins.simps get_units.simps

declare set_quantity.simps [simp del] set_units.simps [simp del] set_log.simps [simp del]
  get_log.simps [simp del] set_lim.simps [simp del] get_lim.simps [simp del]
  set_label_override.simps [simp del] set_bins.simps [simp del] get_bins.simps [simp del]
  get_units.simps [simp del]

lemmas parse_defs =
  VelociraptorPlot_def new_plot_def parse_data_def parse_method_def parse_scatter_def
  parse_2dhistogram_def parse_massfunction_def parse_histogram_def scatter_coordinate_def
  massfunction_coordinate_def parse_coordinate_quantity_def set_coordinate_quantity_none_def
  parse_coordinate_limit_def limit_quantity_def axis_entry_def store_lim_0_def store_lim_1_def
  parse_coordinate_log_def parse_coordinate_label_override_def parse_line_def parse_lines_def
  parse_number_of_bins_def parse_coordinate_histogram_bin_def unyt_quantity_def
  VelociraptorLine_def valid_plot_types_def valid_line_types_def set_line_def
  invalid_type_message_def missing_quantity_message_def repr_str_list_def
  logspace_def linspace_def fsub_def float_overflow_bound_def attr_simps

subsection \<open>Exceptions and subscripts\<close>

lemma bnd_Inl [simp]: "bnd (Inl e) f = Inl e"
  by (simp add: bnd_def)

lemma bnd_Inr [simp]: "bnd (Inr v) f = f v"
  by (simp add: bnd_def)

lemma bnd_eq_Inr: "bnd m f = Inr r \<longleftrightarrow> (\<exists>v. m = Inr v \<and> f v = Inr r)"
  by (cases m) simp_all

lemma except_KeyError_Inr [simp]: "except_KeyError (Inr v) h = Inr v"
  by (simp add: except_KeyError_def)

lemma except_KeyError_Inl [simp]:
  "except_KeyError (Inl (KeyError k)) h = h"
  "except_KeyError (Inl TypeError) h = Inl TypeError"
  "except_KeyError (Inl ValueError) h = Inl ValueError"
  "except_KeyError (Inl OverflowError) h = Inl OverflowError"
  "except_KeyError (Inl AttributeError) h = Inl AttributeError"
  "except_KeyError (Inl (AutoPlotterError msg)) h = Inl (AutoPlotterError msg)"
  "except_KeyError (Inl (LibraryError msg)) h = Inl (LibraryError msg)"
  by (simp_all add: except_KeyError_def)

lemma except_KeyError_eq_Inr:
  "except_KeyError m h = Inr r \<longleftrightarrow> m = Inr r \<or> ((\<exists>k. m = Inl (KeyError k)) \<and> h = Inr r)"
  by (auto simp: except_KeyError_def split: sum.splits error.splits)

lemma subscript_YMap_None [simp]:
  "map_of m k = None \<Longrightarrow> subscript (YMap m) k = Inl (KeyError k)"
  by simp

lemma subscript_YMap_Some [simp]:
  "map_of m k = Some v \<Longrightarrow> subscript (YMap m) k = Inr v"
  by simp

lemma subscript_eq_Inr: "subscript d k = Inr v \<Longrightarrow> \<exists>m. d = YMap m \<and> map_of m k = Some v"
  by (cases d) (auto split: option.splits)

subsection \<open>Missing quantity or units\<close>

lemma parse_coordinate_quantity_missing:
  assumes "data self = YMap m" and "map_of m (coord_name c) = Some (YMap ax)"
    and "map_of ax ''quantity'' = None \<or> map_of ax ''units'' = None"
  shows "parse_coordinate_quantity ext c self =
           Inl (AutoPlotterError (missing_quantity_message c (filename self)))"
proof (cases "map_of ax ''quantity''")
  case None
  with assms(1,2) show ?thesis
    by (simp add: parse_coordinate_quantity_def axis_entry_def)
next
  case (Some q)
  with assms(3) have "map_of ax ''units'' = None" by simp
  with Some assms(1,2) show ?thesis
    by (simp add: parse_coordinate_quantity_def axis_entry_def)
qed

lemma parse_method_valid:
  "t \<in> set valid_plot_types \<Longrightarrow>
   parse_method ext t self =
     (if t = ''scatter'' then parse_scatter ext self
      else if t = ''2dhistogram'' then parse_2dhistogram ext self
      else parse_massfunction ext self)"
  by (auto simp: parse_method_def valid_plot_types_def)

lemma parse_data_absent_type:
  "map_of m ''type'' = None \<Longrightarrow>
   parse_data ext (new_plot name (YMap m)) =
     parse_scatter ext ((new_plot name (YMap m))\<lparr>plot_type := Some (YStr ''scatter'')\<rparr>)"
  by (simp add: parse_data_def new_plot_def valid_plot_types_def parse_method_def)

lemma parse_data_valid_type:
  "map_of m ''type'' = Some (YStr t) \<Longrightarrow> t \<in> set valid_plot_types \<Longrightarrow>
   parse_data ext (new_plot name (YMap m)) =
     parse_method ext t ((new_plot name (YMap m))\<lparr>plot_type := Some (YStr t)\<rparr>)"
  by (auto simp add: parse_data_def new_plot_def)

lemma parse_data_invalid_type:
  "subscript d ''type'' = Inr t \<Longrightarrow> t \<notin> set (map YStr valid_plot_types) \<Longrightarrow>
   parse_data ext (new_plot name d) = Inl (AutoPlotterError (invalid_type_message ext t))"
  by (simp add: parse_data_def new_plot_def)

lemma first_step_fails:
  assumes "parse_coordinate_quantity ext X self = Inl e"
  shows "parse_scatter ext self = Inl e" "parse_2dhistogram ext self = Inl e"
    "parse_massfunction ext self = Inl e"
  using assms
  by (simp_all add: parse_scatter_def parse_2dhistogram_def parse_massfunction_def
      scatter_coordinate_def)

text \<open>
  Claim C8. When the sub-mapping of an axis has no \<^verbatim>\<open>quantity\<close> key or no
  \<^verbatim>\<open>units\<close> key, \<^verbatim>\<open>_parse_coordinate_quantity\<close> raises an
  \<^verbatim>\<open>AutoPlotterError\<close> whose message names the coordinate and the plot entry; for
  the x axis, which every plot type resolves first, the constructor of the plot raises that
  error.
\<close>

theorem missing_quantity_names_coordinate_and_entry:
  assumes "map_of ax ''quantity'' = None \<or> map_of ax ''units'' = None"
  shows "(data self = YMap m \<and> map_of m (coord_name c) = Some (YMap ax) \<longrightarrow>
          parse_coordinate_quantity ext c self =
            Inl (AutoPlotterError
                  (''You must provide an '' @ coord_name c @ ''-quantity and units to plot for ''
                    @ filename self)))
       \<and> (map_of m ''x'' = Some (YMap ax) \<and>
           (map_of m ''type'' = None \<or>
            (\<exists>t \<in> set valid_plot_types. map_of m ''type'' = Some (YStr t))) \<longrightarrow>
          VelociraptorPlot ext name (YMap m) =
            Inl (AutoPlotterError
                  (''You must provide an x-quantity and units to plot for '' @ name)))"
proof (intro conjI impI)
  assume "data self = YMap m \<and> map_of m (coord_name c) = Some (YMap ax)"
  with assms show "parse_coordinate_quantity ext c self =
      Inl (AutoPlotterError
            (''You must provide an '' @ coord_name c @ ''-quantity and units to plot for ''
              @ filename self))"
    using parse_coordinate_quantity_missing [of self m c ax ext]
    by (simp add: missing_quantity_message_def)
next
  assume h: "map_of m ''x'' = Some (YMap ax) \<and>
           (map_of m ''type'' = None \<or>
            (\<exists>t \<in> set valid_plot_types. map_of m ''type'' = Some (YStr t)))"
  let ?e = "AutoPlotterError (''You must provide an x-quantity and units to plot for '' @ name)"
  have q: "parse_coordinate_quantity ext X ((new_plot name (YMap m))\<lparr>plot_type := pt\<rparr>) = Inl ?e"
    for pt
    using parse_coordinate_quantity_missing
      [of "(new_plot name (YMap m))\<lparr>plot_type := pt\<rparr>" m X ax ext] assms h
    by (simp add: missing_quantity_message_def new_plot_def)
  from h consider "map_of m ''type'' = None"
    | t where "t \<in> set valid_plot_types" "map_of m ''type'' = Some (YStr t)"
    by auto
  then show "VelociraptorPlot ext name (YMap m) = Inl ?e"
  proof cases
    case 1
    then show ?thesis
      by (simp add: VelociraptorPlot_def parse_data_absent_type first_step_fails(1) [OF q])
  next
    case 2
    then show ?thesis
      by (simp add: VelociraptorPlot_def parse_data_valid_type parse_method_valid
          first_step_fails [OF q])
  qed
qed

theorem missing_quantity_names_coordinate_and_entry_witness:
  "parse_coordinate_quantity sample_externals X (new_plot ''broken'' scatter_without_quantity) =
     Inl (AutoPlotterError ''You must provide an x-quantity and units to plot for broken'')
   \<and> VelociraptorPlot sample_externals ''broken'' scatter_without_quantity =
     Inl (AutoPlotterError ''You must provide an x-quantity and units to plot for broken'')"
  using missing_quantity_names_coordinate_and_entry
    [where ax = "[(''units'', YStr ''Solar_Mass'')]"
       and self = "new_plot ''broken'' scatter_without_quantity"
       and m = "[(''type'', YStr ''scatter''), (''x'', YMap [(''units'', YStr ''Solar_Mass'')]),
                 (''y'', plain_axis)]"
       and c = X and ext = sample_externals and name = "''broken''"]
  by (simp add: scatter_without_quantity_def new_plot_def valid_plot_types_def)

subsection \<open>Limits\<close>

lemma limit_quantity_no_units:
  assumes "d = YMap m" and "map_of m (coord_name c) = Some (YMap ax)"
    and "map_of ax ''units'' = None"
    and "\<forall>v. map_of ax key = Some v \<longrightarrow> (\<exists>f. py_float ext v = Inr f)"
  shows "\<exists>k. limit_quantity ext d c key = Inl (KeyError k)"
proof (cases "map_of ax key")
  case None
  with assms(1,2) show ?thesis by (simp add: limit_quantity_def axis_entry_def)
next
  case (Some v)
  with assms(4) obtain f where "py_float ext v = Inr f" by blast
  with Some assms(1,2,3) show ?thesis by (simp add: limit_quantity_def axis_entry_def)
qed

lemma data_set_lim [simp]: "data (set_lim c l self) = data self"
  by (cases c) (simp_all add: attr_simps)

text \<open>
  Claim C10. When the sub-mapping of an axis has no \<^verbatim>\<open>units\<close> key, a \<^verbatim>\<open>start\<close> or
  \<^verbatim>\<open>end\<close> that is present and that \<^verbatim>\<open>float\<close> converts is dropped:
  \<^verbatim>\<open>_parse_coordinate_limit\<close> returns normally and both limits stay \<^verbatim>\<open>None\<close>.
\<close>

theorem limit_without_units_is_dropped:
  assumes "data self = YMap m" and "map_of m (coord_name c) = Some (YMap ax)"
    and "map_of ax ''units'' = None"
    and "\<forall>v. map_of ax ''start'' = Some v \<longrightarrow> (\<exists>f. py_float ext v = Inr f)"
    and "\<forall>v. map_of ax ''end'' = Some v \<longrightarrow> (\<exists>f. py_float ext v = Inr f)"
  shows "parse_coordinate_limit ext c self = Inr (set_lim c (None, None) self)"
proof -
  obtain k where k: "limit_quantity ext (data self) c ''start'' = Inl (KeyError k)"
    using limit_quantity_no_units [OF assms(1,2,3,4)] by blast
  obtain k' where k': "limit_quantity ext (data self) c ''end'' = Inl (KeyError k')"
    using limit_quantity_no_units [OF assms(1,2,3,5)] by blast
  show ?thesis
    by (simp add: parse_coordinate_limit_def Let_def k k')
qed

theorem limit_without_units_is_dropped_witness:
  "parse_coordinate_limit sample_externals Y (new_plot ''mf'' massfunction_y_start) =
     Inr (set_lim Y (None, None) (new_plot ''mf'' massfunction_y_start))
   \<and> map_of [(''start'', YFloat (Fin 0.001))] ''start'' = Some (YFloat (Fin 0.001))"
  using limit_without_units_is_dropped
    [where self = "new_plot ''mf'' massfunction_y_start"
       and m = "[(''type'', YStr ''massfunction''), (''number_of_bins'', YInt 2),
                 (''x'', log_axis), (''y'', YMap [(''start'', YFloat (Fin 0.001))])]"
       and c = Y and ax = "[(''start'', YFloat (Fin 0.001))]" and ext = sample_externals]
  by (simp add: massfunction_y_start_def new_plot_def)

text \<open>
  A \<^verbatim>\<open>start\<close> that \<^verbatim>\<open>float\<close> cannot convert is not dropped: the conversion
  comes before the lookup of \<^verbatim>\<open>units\<close>, and its exception is not a
  \<^verbatim>\<open>KeyError\<close>.
\<close>

lemma huge_start_raises:
  "parse_coordinate_limit sample_externals Y
     (new_plot ''mf'' (YMap [(''y'', YMap [(''start'', YInt (10 ^ 400))])])) =
     Inl OverflowError"
  by (simp add: parse_coordinate_limit_def limit_quantity_def axis_entry_def new_plot_def
      float_overflow_bound_def Let_def)

text \<open>
  The same through the constructor: a mass function whose y axis has a \<^verbatim>\<open>start\<close>
  and no \<^verbatim>\<open>units\<close>.
\<close>

lemma massfunction_y_limit_dropped_example:
  "(case VelociraptorPlot sample_externals ''mf'' massfunction_y_start of
      Inl e \<Rightarrow> None | Inr p \<Rightarrow> y_lim p) = Some (None, None)"
  by (simp add: parse_defs sample_externals_def massfunction_y_start_def log_axis_def Let_def
      upt_conv_Cons)

subsection \<open>Unknown plot types\<close>

lemma repr_valid_plot_types:
  "repr_str_list valid_plot_types = ''['scatter', '2dhistogram', 'massfunction']''"
  by (simp add: repr_str_list_def valid_plot_types_def)

text \<open>
  Claim C7, as amended. A \<^verbatim>\<open>type\<close> outside the valid plot types makes the constructor
  raise an \<^verbatim>\<open>AutoPlotterError\<close> whose message holds the offending value and the list of
  valid types; the name of the entry is no part of it.
\<close>

theorem unknown_plot_type_message:
  assumes "subscript d ''type'' = Inr t" and "t \<notin> set (map YStr valid_plot_types)"
  shows "VelociraptorPlot ext name d =
           Inl (AutoPlotterError
                 (''Plot type '' @ py_str ext t @
                  '' is not valid. Please choose from ['scatter', '2dhistogram', 'massfunction'].''))"
  using parse_data_invalid_type [OF assms, of ext name]
  by (simp add: VelociraptorPlot_def invalid_type_message_def repr_valid_plot_types)

theorem unknown_plot_type_message_witness:
  "subscript pie_chart ''type'' = Inr (YStr ''pie'')
   \<and> YStr ''pie'' \<notin> set (map YStr valid_plot_types)
   \<and> VelociraptorPlot sample_externals ''stellar_mass'' pie_chart =
       Inl (AutoPlotterError
             ''Plot type pie is not valid. Please choose from ['scatter', '2dhistogram', 'massfunction'].'')"
  using unknown_plot_type_message
    [where d = pie_chart and t = "YStr ''pie''" and ext = sample_externals
       and name = "''stellar_mass''"]
  by (simp add: pie_chart_def valid_plot_types_def)

theorem unknown_plot_type_omits_entry_name:
  "VelociraptorPlot sample_externals ''stellar_mass'' pie_chart =
     Inl (AutoPlotterError
           ''Plot type pie is not valid. Please choose from ['scatter', '2dhistogram', 'massfunction'].'')
   \<and> \<not> occurs_in ''stellar_mass''
         ''Plot type pie is not valid. Please choose from ['scatter', '2dhistogram', 'massfunction'].''"
proof
  have t: "subscript pie_chart ''type'' = Inr (YStr ''pie'')"
    by (simp add: pie_chart_def)
  have n: "YStr ''pie'' \<notin> set (map YStr valid_plot_types)"
    by (simp add: valid_plot_types_def)
  show "VelociraptorPlot sample_externals ''stellar_mass'' pie_chart =
     Inl (AutoPlotterError
           ''Plot type pie is not valid. Please choose from ['scatter', '2dhistogram', 'massfunction'].'')"
    using parse_data_invalid_type [OF t n, of sample_externals "''stellar_mass''"]
    by (simp add: VelociraptorPlot_def invalid_type_message_def repr_valid_plot_types)
  show "\<not> occurs_in ''stellar_mass''
         ''Plot type pie is not valid. Please choose from ['scatter', '2dhistogram', 'massfunction'].''"
    by simp
qed

subsection \<open>Bin edges\<close>

lemma log_10_100: "log 10 100 = 2"
proof -
  have "log 10 (10 ^ 2) = 2" by (subst log_nat_power) simp_all
  then show ?thesis by simp
qed

lemma linspace_length:
  "linspace a b n = Inr vs \<Longrightarrow> length vs = nat n"
  by (auto simp: linspace_def Let_def split: if_splits)

lemma linspace_returns:
  "0 \<le> n \<Longrightarrow> \<exists>vs. linspace a b n = Inr vs \<and> length vs = nat n"
  by (auto simp: linspace_def Let_def)

lemma logspace_returns:
  "0 \<le> n \<Longrightarrow> \<exists>vs. logspace a b n = Inr vs \<and> length vs = nat n"
  using linspace_returns [of n a b] by (auto simp: logspace_def)

lemma logspace_length:
  "logspace a b n = Inr vs \<Longrightarrow> length vs = nat n"
  by (auto simp: logspace_def bnd_eq_Inr dest: linspace_length)

lemma get_bins_set_bins [simp]: "get_bins c (set_bins c b self) = Some b"
  by (cases c) (simp_all add: attr_simps)

lemma log10_limit_eq_Inr:
  "log10_limit l = Inr v \<longleftrightarrow> (\<exists>q. l = Some q \<and> v = log10 (q_value q))"
  by (cases l) auto

lemma linspace_limits_eq_Inr:
  "linspace_limits start stop n = Inr b \<Longrightarrow>
   \<exists>s e. start = Some s \<and> stop = Some e \<and> arr_units b = q_units s
     \<and> q_units e = q_units s \<and> length (arr_values b) = nat n"
  by (auto simp: bnd_eq_Inr split: if_splits option.splits dest!: linspace_length)

lemma histogram_bin_Inr:
  assumes "parse_coordinate_histogram_bin c self = Inr s"
  shows "\<exists>b n start stop. s = set_bins c b self \<and> number_of_bins self = Some n
           \<and> length (arr_values b) = nat n
           \<and> get_lim c self = Some (Some start, Some stop) \<and> arr_units b = q_units start"
proof -
  from assms obtain start stop lg n where l: "get_lim c self = Some (start, stop)"
    and g: "get_log c self = Some lg" and n: "number_of_bins self = Some n"
    by (auto simp: parse_coordinate_histogram_bin_def bnd_eq_Inr
        split: option.splits bool.splits)
  show ?thesis
  proof (cases lg)
    case True
    with assms l g n obtain q q' vs where "start = Some q" "stop = Some q'"
      "logspace (log10 (q_value q)) (log10 (q_value q')) n = Inr vs"
      "s = set_bins c \<lparr>arr_values = vs, arr_units = q_units q\<rparr> self"
      by (auto simp: parse_coordinate_histogram_bin_def bnd_eq_Inr log10_limit_eq_Inr)
    with l n show ?thesis
      using logspace_length [of "log10 (q_value q)" "log10 (q_value q')" n vs] by auto
  next
    case False
    with assms l g n obtain b where "linspace_limits start stop n = Inr b"
      "s = set_bins c b self"
      by (auto simp: parse_coordinate_histogram_bin_def bnd_eq_Inr)
    with l n show ?thesis
      using linspace_limits_eq_Inr [of start stop n b] by auto
  qed
qed

lemma histogram_bin_count:
  assumes "parse_coordinate_histogram_bin c self = Inr s" and "number_of_bins self = Some n"
  shows "\<exists>b. get_bins c s = Some b \<and> length (arr_values b) = nat n"
  using histogram_bin_Inr [OF assms(1)] assms(2) by auto

text \<open>
  Claim C1. The code builds as many bin edges as \<^verbatim>\<open>number_of_bins\<close>, not one more:
  from 0 to 10 on a linear axis with \<^verbatim>\<open>number_of_bins = 5\<close> the five edges are
  0, 2.5, 5, 7.5, 10, and from 1 to 100 on a log axis with \<^verbatim>\<open>number_of_bins = 2\<close> the
  two edges are 1 and 100.
\<close>

theorem bin_edges_are_number_of_bins:
  "(case VelociraptorPlot sample_externals ''mf'' massfunction_linear of
      Inl e \<Rightarrow> None | Inr p \<Rightarrow> x_bins p) =
     Some \<lparr>arr_values = [Fin 0, Fin 2.5, Fin 5, Fin 7.5, Fin 10], arr_units = ''Solar_Mass''\<rparr>
   \<and> (case VelociraptorPlot sample_externals ''mf'' massfunction_log of
        Inl e \<Rightarrow> None | Inr p \<Rightarrow> x_bins p) =
     Some \<lparr>arr_values = [Fin 1, Fin 100], arr_units = ''Solar_Mass''\<rparr>"
proof
  show "(case VelociraptorPlot sample_externals ''mf'' massfunction_linear of
      Inl e \<Rightarrow> None | Inr p \<Rightarrow> x_bins p) =
     Some \<lparr>arr_values = [Fin 0, Fin 2.5, Fin 5, Fin 7.5, Fin 10], arr_units = ''Solar_Mass''\<rparr>"
    by (simp add: parse_defs sample_externals_def massfunction_linear_def linear_axis_def
        Let_def upt_conv_Cons)
  show "(case VelociraptorPlot sample_externals ''mf'' massfunction_log of
        Inl e \<Rightarrow> None | Inr p \<Rightarrow> x_bins p) =
     Some \<lparr>arr_values = [Fin 1, Fin 100], arr_units = ''Solar_Mass''\<rparr>"
    by (simp add: parse_defs sample_externals_def massfunction_log_def log_axis_def
        Let_def upt_conv_Cons log_10_100)
qed

text \<open>
  Claim C2. The plot type \<^verbatim>\<open>histogram\<close> is not among the valid plot types: the entry is
  rejected, while the same entry with type \<^verbatim>\<open>massfunction\<close> is built. The method
  \<^verbatim>\<open>_parse_histogram\<close> of the class is never reached.
\<close>

theorem histogram_type_is_rejected:
  "VelociraptorPlot sample_externals ''hist'' histogram_linear =
     Inl (AutoPlotterError
           ''Plot type histogram is not valid. Please choose from ['scatter', '2dhistogram', 'massfunction'].'')
   \<and> (case VelociraptorPlot sample_externals ''hist'' massfunction_linear of
        Inl e \<Rightarrow> False | Inr p \<Rightarrow> True)"
proof
  have t: "subscript histogram_linear ''type'' = Inr (YStr ''histogram'')"
    by (simp add: histogram_linear_def)
  have n: "YStr ''histogram'' \<notin> set (map YStr valid_plot_types)"
    by (simp add: valid_plot_types_def)
  show "VelociraptorPlot sample_externals ''hist'' histogram_linear =
     Inl (AutoPlotterError
           ''Plot type histogram is not valid. Please choose from ['scatter', '2dhistogram', 'massfunction'].'')"
    using parse_data_invalid_type [OF t n, of sample_externals "''hist''"]
    by (simp add: VelociraptorPlot_def invalid_type_message_def repr_valid_plot_types)
  show "case VelociraptorPlot sample_externals ''hist'' massfunction_linear of
        Inl e \<Rightarrow> False | Inr p \<Rightarrow> True"
    by (simp add: parse_defs sample_externals_def massfunction_linear_def linear_axis_def
        Let_def upt_conv_Cons)
qed

text \<open>
  Claim C6, as amended. On a log axis whose lower limit is zero or negative, with an upper
  limit and a bin count that is not negative, \<^verbatim>\<open>_parse_coordinate_histogram_bin\<close> raises
  nothing: it stores \<^verbatim>\<open>number_of_bins\<close> edges in the unit of the lower limit.
\<close>

theorem nonpositive_log_bound_builds_bins:
  assumes "get_lim c self = Some (Some s, Some e)" and "get_log c self = Some True"
    and "number_of_bins self = Some n" and "0 \<le> n"
    and "q_value s = Fin a" and "a \<le> 0"
  shows "\<exists>vs. parse_coordinate_histogram_bin c self =
                Inr (set_bins c \<lparr>arr_values = vs, arr_units = q_units s\<rparr> self)
              \<and> length vs = nat n"
proof -
  obtain vs where "logspace (log10 (q_value s)) (log10 (q_value e)) n = Inr vs"
    and "length vs = nat n"
    using logspace_returns [OF assms(4)] by blast
  with assms(1,2,3) show ?thesis
    by (intro exI [of _ vs]) (simp add: parse_coordinate_histogram_bin_def)
qed

theorem nonpositive_log_bound_builds_bins_witness:
  "\<exists>vs. parse_coordinate_histogram_bin X
          ((new_plot ''mf'' YNull)
             \<lparr>x_log := Some True,
              x_lim := Some (Some \<lparr>q_value = Fin 0, q_units = ''Solar_Mass''\<rparr>,
                             Some \<lparr>q_value = Fin 100, q_units = ''Solar_Mass''\<rparr>),
              number_of_bins := Some 2\<rparr>) =
         Inr (set_bins X \<lparr>arr_values = vs, arr_units = ''Solar_Mass''\<rparr>
               ((new_plot ''mf'' YNull)
                  \<lparr>x_log := Some True,
                   x_lim := Some (Some \<lparr>q_value = Fin 0, q_units = ''Solar_Mass''\<rparr>,
                                  Some \<lparr>q_value = Fin 100, q_units = ''Solar_Mass''\<rparr>),
                   number_of_bins := Some 2\<rparr>))
       \<and> length vs = 2"
  using nonpositive_log_bound_builds_bins
    [where c = X and n = 2 and a = 0
       and s = "\<lparr>q_value = Fin 0, q_units = ''Solar_Mass''\<rparr>"
       and e = "\<lparr>q_value = Fin 100, q_units = ''Solar_Mass''\<rparr>"
       and self = "(new_plot ''mf'' YNull)
             \<lparr>x_log := Some True,
              x_lim := Some (Some \<lparr>q_value = Fin 0, q_units = ''Solar_Mass''\<rparr>,
                             Some \<lparr>q_value = Fin 100, q_units = ''Solar_Mass''\<rparr>),
              number_of_bins := Some 2\<rparr>"]
  by (simp add: new_plot_def attr_simps)

theorem log_axis_from_zero_builds_bins:
  "(case VelociraptorPlot sample_externals ''mf'' massfunction_from_zero of
      Inl e \<Rightarrow> None | Inr p \<Rightarrow> x_bins p) =
     Some \<lparr>arr_values = [NaN, Fin 100], arr_units = ''Solar_Mass''\<rparr>"
  by (simp add: parse_defs sample_externals_def massfunction_from_zero_def
      Let_def upt_conv_Cons log_10_100)

subsection \<open>The whole configuration\<close>

lemma build_plots_eq_Inr:
  "build_plots ext entries = Inr ps \<longleftrightarrow>
   list_all2 (\<lambda>(n, d) p. VelociraptorPlot ext n d = Inr p) entries ps"
proof (induction entries arbitrary: ps)
  case Nil
  then show ?case by auto
next
  case (Cons entry entries)
  obtain n d where "entry = (n, d)" by (cases entry)
  with Cons show ?case
    by (auto simp: bnd_eq_Inr list_all2_Cons1)
qed

lemma build_plots_first_failure:
  assumes "\<forall>(n, d) \<in> set pre. \<exists>p. VelociraptorPlot ext n d = Inr p"
    and "VelociraptorPlot ext name d = Inl e"
  shows "build_plots ext (pre @ (name, d) # rest) = Inl e"
  using assms(1)
proof (induction pre)
  case Nil
  with assms(2) show ?case by simp
next
  case (Cons entry pre)
  obtain n' d' where e: "entry = (n', d')" by (cases entry)
  with Cons.prems obtain p where "VelociraptorPlot ext n' d' = Inr p" by auto
  moreover have "build_plots ext (pre @ (name, d) # rest) = Inl e"
    using Cons by simp
  ultimately show ?case using e by simp
qed

lemma scatter_plain_builds:
  "\<exists>p. VelociraptorPlot sample_externals ''masses'' scatter_plain = Inr p"
  by (simp add: parse_defs sample_externals_def scatter_plain_def plain_axis_def)

lemma scatter_without_quantity_fails:
  "VelociraptorPlot sample_externals ''broken'' scatter_without_quantity =
     Inl (AutoPlotterError ''You must provide an x-quantity and units to plot for broken'')"
  by (simp add: parse_defs sample_externals_def scatter_without_quantity_def)

lemma pie_chart_fails:
  "VelociraptorPlot sample_externals ''pie'' pie_chart =
     Inl (AutoPlotterError
           ''Plot type pie is not valid. Please choose from ['scatter', '2dhistogram', 'massfunction'].'')"
  by (simp add: parse_defs sample_externals_def pie_chart_def)

text \<open>
  Claim C4, as amended. \<^verbatim>\<open>parse_yaml\<close> builds the entries in file order and stops at
  the first one whose constructor raises: that error is the outcome, whatever entries
  follow, and no plot is returned. Plots are returned only when every entry builds, one for
  each entry and in order.
\<close>

theorem parse_yaml_stops_at_first_failure:
  "(parse_yaml ext (YMap entries) = Inr ps \<longleftrightarrow>
      list_all2 (\<lambda>(n, d) p. VelociraptorPlot ext n d = Inr p) entries ps)
   \<and> ((\<forall>(n, d) \<in> set pre. \<exists>p. VelociraptorPlot ext n d = Inr p)
        \<and> VelociraptorPlot ext name d = Inl e \<longrightarrow>
      parse_yaml ext (YMap (pre @ (name, d) # rest)) = Inl e)"
  using build_plots_eq_Inr [of ext entries ps] build_plots_first_failure [of pre ext name d e rest]
  by simp

theorem parse_yaml_stops_at_first_failure_witness:
  "(\<exists>p. parse_yaml sample_externals (YMap [(''masses'', scatter_plain)]) = Inr [p])
   \<and> parse_yaml sample_externals
        (YMap [(''masses'', scatter_plain), (''broken'', scatter_without_quantity),
               (''pie'', pie_chart)]) =
       Inl (AutoPlotterError ''You must provide an x-quantity and units to plot for broken'')"
proof -
  obtain p where p: "VelociraptorPlot sample_externals ''masses'' scatter_plain = Inr p"
    using scatter_plain_builds by blast
  show ?thesis
    using parse_yaml_stops_at_first_failure
      [where ext = sample_externals and entries = "[(''masses'', scatter_plain)]"
         and ps = "[p]" and pre = "[(''masses'', scatter_plain)]"
         and name = "''broken''" and d = scatter_without_quantity
         and e = "AutoPlotterError ''You must provide an x-quantity and units to plot for broken''"
         and rest = "[(''pie'', pie_chart)]"]
      p scatter_without_quantity_fails
    by auto
qed

theorem parse_yaml_collects_nothing:
  "parse_yaml sample_externals
     (YMap [(''masses'', scatter_plain), (''broken'', scatter_without_quantity)]) =
     Inl (AutoPlotterError ''You must provide an x-quantity and units to plot for broken'')
   \<and> parse_yaml sample_externals
        (YMap [(''pie'', pie_chart), (''broken'', scatter_without_quantity)]) =
       Inl (AutoPlotterError
             ''Plot type pie is not valid. Please choose from ['scatter', '2dhistogram', 'massfunction'].'')"
proof -
  obtain p where p: "VelociraptorPlot sample_externals ''masses'' scatter_plain = Inr p"
    using scatter_plain_builds by blast
  show ?thesis
    by (simp add: p scatter_without_quantity_fails pie_chart_fails)
qed

subsection \<open>Attributes that an assignment leaves alone\<close>

lemma data_setters [simp]:
  "data (set_quantity c q self) = data self"
  "data (set_units c u self) = data self"
  "data (set_log c b self) = data self"
  "data (set_label_override c v self) = data self"
  "data (set_bins c a self) = data self"
  "data (set_line lt lv self) = data self"
  by (cases c; simp add: set_line_def attr_simps)+

lemma filename_setters [simp]:
  "filename (set_quantity c q self) = filename self"
  "filename (set_units c u self) = filename self"
  "filename (set_log c b self) = filename self"
  "filename (set_lim c l self) = filename self"
  "filename (set_label_override c v self) = filename self"
  "filename (set_bins c a self) = filename self"
  "filename (set_line lt lv self) = filename self"
  by (cases c; simp add: set_line_def attr_simps)+

lemma plot_type_setters [simp]:
  "plot_type (set_quantity c q self) = plot_type self"
  "plot_type (set_units c u self) = plot_type self"
  "plot_type (set_log c b self) = plot_type self"
  "plot_type (set_lim c l self) = plot_type self"
  "plot_type (set_label_override c v self) = plot_type self"
  "plot_type (set_bins c a self) = plot_type self"
  "plot_type (set_line lt lv self) = plot_type self"
  by (cases c; simp add: set_line_def attr_simps)+

lemma number_of_bins_setters [simp]:
  "number_of_bins (set_quantity c q self) = number_of_bins self"
  "number_of_bins (set_units c u self) = number_of_bins self"
  "number_of_bins (set_log c b self) = number_of_bins self"
  "number_of_bins (set_lim c l self) = number_of_bins self"
  "number_of_bins (set_label_override c v self) = number_of_bins self"
  "number_of_bins (set_bins c a self) = number_of_bins self"
  "number_of_bins (set_line lt lv self) = number_of_bins self"
  by (cases c; simp add: set_line_def attr_simps)+

lemma get_log_setters [simp]:
  "get_log c' (set_quantity c q self) = get_log c' self"
  "get_log c' (set_units c u self) = get_log c' self"
  "get_log c' (set_log c b self) = (if c' = c then Some b else get_log c' self)"
  "get_log c' (set_lim c l self) = get_log c' self"
  "get_log c' (set_label_override c v self) = get_log c' self"
  "get_log c' (set_bins c a self) = get_log c' self"
  "get_log c' (set_line lt lv self) = get_log c' self"
  "get_log c' (self\<lparr>number_of_bins := n\<rparr>) = get_log c' self"
  "get_log c' (self\<lparr>plot_type := t\<rparr>) = get_log c' self"
  by (cases c; cases c'; simp add: set_line_def attr_simps)+

lemma get_lim_setters [simp]:
  "get_lim c' (set_quantity c q self) = get_lim c' self"
  "get_lim c' (set_units c u self) = get_lim c' self"
  "get_lim c' (set_log c b self) = get_lim c' self"
  "get_lim c' (set_lim c l self) = (if c' = c then Some l else get_lim c' self)"
  "get_lim c' (set_label_override c v self) = get_lim c' self"
  "get_lim c' (set_bins c a self) = get_lim c' self"
  "get_lim c' (set_line lt lv self) = get_lim c' self"
  "get_lim c' (self\<lparr>number_of_bins := n\<rparr>) = get_lim c' self"
  "get_lim c' (self\<lparr>plot_type := t\<rparr>) = get_lim c' self"
  by (cases c; cases c'; simp add: set_line_def attr_simps)+

lemma get_units_setters [simp]:
  "get_units c' (set_quantity c q self) = get_units c' self"
  "get_units c' (set_units c u self) = (if c' = c then Some u else get_units c' self)"
  "get_units c' (set_log c b self) = get_units c' self"
  "get_units c' (set_lim c l self) = get_units c' self"
  "get_units c' (set_label_override c v self) = get_units c' self"
  "get_units c' (set_bins c a self) = get_units c' self"
  "get_units c' (set_line lt lv self) = get_units c' self"
  "get_units c' (self\<lparr>number_of_bins := n\<rparr>) = get_units c' self"
  "get_units c' (self\<lparr>plot_type := t\<rparr>) = get_units c' self"
  by (cases c; cases c'; simp add: set_line_def attr_simps)+

lemma get_bins_setters [simp]:
  "get_bins c' (set_quantity c q self) = get_bins c' self"
  "get_bins c' (set_units c u self) = get_bins c' self"
  "get_bins c' (set_log c b self) = get_bins c' self"
  "get_bins c' (set_lim c l self) = get_bins c' self"
  "get_bins c' (set_label_override c v self) = get_bins c' self"
  "get_bins c' (set_bins c a self) = (if c' = c then Some a else get_bins c' self)"
  "get_bins c' (set_line lt lv self) = get_bins c' self"
  "get_bins c' (self\<lparr>number_of_bins := n\<rparr>) = get_bins c' self"
  "get_bins c' (self\<lparr>plot_type := t\<rparr>) = get_bins c' self"
  by (cases c; cases c'; simp add: set_line_def attr_simps)+

lemma set_lim_set_lim [simp]: "set_lim c l (set_lim c l' self) = set_lim c l self"
  by (cases c) (simp_all add: attr_simps)

subsection \<open>What each parsing step returns\<close>

lemma parse_coordinate_quantity_Inr:
  assumes "parse_coordinate_quantity ext c self = Inr s"
  shows "\<exists>q u. s = set_units c u (set_quantity c q self)
           \<and> bnd (axis_entry (data self) c ''units'') (unit_registry ext) = Inr (q_units u)"
proof -
  from assms obtain q u un where "axis_entry (data self) c ''units'' = Inr u"
    and "unit_registry ext u = Inr un"
    and "s = set_units c \<lparr>q_value = Fin 1, q_units = un\<rparr> (set_quantity c q self)"
    by (auto simp: parse_coordinate_quantity_def except_KeyError_eq_Inr bnd_eq_Inr
        unyt_quantity_def)
  then show ?thesis
    by (intro exI [of _ q] exI [of _ "\<lparr>q_value = Fin 1, q_units = un\<rparr>"]) simp
qed

lemma set_coordinate_quantity_none_Inr:
  assumes "set_coordinate_quantity_none ext c self = Inr s"
  shows "\<exists>u. s = set_units c u (set_quantity c YNull self)"
  using assms by (auto simp: set_coordinate_quantity_none_def bnd_eq_Inr)

lemma parse_coordinate_log_Inr:
  assumes "parse_coordinate_log ext c self = Inr s"
  shows "\<exists>b. s = set_log c b self
           \<and> (case axis_entry (data self) c ''log'' of Inl (KeyError k) \<Rightarrow> b | _ \<Rightarrow> True)"
proof (cases "axis_entry (data self) c ''log''")
  case (Inl e)
  with assms have "s = set_log c True self"
    by (cases e) (simp_all add: parse_coordinate_log_def)
  with Inl show ?thesis
    by (intro exI [of _ True]) (simp split: error.splits)
next
  case (Inr v)
  with assms have "s = set_log c (py_bool v) self"
    by (simp add: parse_coordinate_log_def)
  with Inr show ?thesis
    by (intro exI [of _ "py_bool v"]) simp
qed

lemma parse_coordinate_limit_Inr:
  assumes "parse_coordinate_limit ext c self = Inr s"
  shows "\<exists>lo hi. s = set_lim c (lo, hi) self
           \<and> (case lo of None \<Rightarrow> True
                | Some q \<Rightarrow> limit_quantity ext (data self) c ''start'' = Inr q)
           \<and> (case hi of None \<Rightarrow> True
                | Some q \<Rightarrow> limit_quantity ext (data self) c ''end'' = Inr q)"
proof -
  let ?s0 = "set_lim c (None, None) self"
  from assms obtain s1 where
    s1: "except_KeyError
           (bnd (limit_quantity ext (data self) c ''start'') (\<lambda>q. store_lim_0 c q ?s0))
           (Inr ?s0) = Inr s1"
    and s: "except_KeyError
           (bnd (limit_quantity ext (data s1) c ''end'') (\<lambda>q. store_lim_1 c q s1))
           (Inr s1) = Inr s"
    by (auto simp: parse_coordinate_limit_def Let_def bnd_eq_Inr)
  from s1 obtain lo where lo: "s1 = set_lim c (lo, None) self"
    "case lo of None \<Rightarrow> True | Some q \<Rightarrow> limit_quantity ext (data self) c ''start'' = Inr q"
    by (auto simp: except_KeyError_eq_Inr bnd_eq_Inr store_lim_0_def)
  from s lo(1) obtain hi where "s = set_lim c (lo, hi) self"
    "case hi of None \<Rightarrow> True | Some q \<Rightarrow> limit_quantity ext (data self) c ''end'' = Inr q"
    by (auto simp: except_KeyError_eq_Inr bnd_eq_Inr store_lim_1_def)
  with lo(2) show ?thesis by blast
qed

lemma parse_coordinate_label_override_Inr:
  assumes "parse_coordinate_label_override ext c self = Inr s"
  shows "\<exists>v. s = set_label_override c v self"
  using assms
  by (auto simp: parse_coordinate_label_override_def except_KeyError_eq_Inr bnd_eq_Inr)

lemma parse_line_Inr:
  assumes "parse_line ext lt self = Inr s"
  shows "\<exists>v. s = set_line lt v self"
  using assms by (auto simp: parse_line_def except_KeyError_eq_Inr bnd_eq_Inr)

lemma parse_lines_Inr:
  assumes "parse_lines ext self = Inr s"
  shows "\<exists>v w. s = set_line ''mean'' w (set_line ''median'' v self)"
  using assms
  by (auto simp: parse_lines_def valid_line_types_def bnd_eq_Inr dest!: parse_line_Inr)

lemma parse_number_of_bins_Inr:
  assumes "parse_number_of_bins ext self = Inr s"
  shows "\<exists>n. s = self\<lparr>number_of_bins := Some n\<rparr>
           \<and> (case subscript (data self) ''number_of_bins'' of
                 Inl (KeyError k) \<Rightarrow> n = 128
               | _ \<Rightarrow> True)"
proof (cases "subscript (data self) ''number_of_bins''")
  case (Inl e)
  with assms have "s = self\<lparr>number_of_bins := Some 128\<rparr>"
    by (cases e) (simp_all add: parse_number_of_bins_def)
  with Inl show ?thesis
    by (intro exI [of _ 128]) (simp split: error.splits)
next
  case (Inr v)
  with assms obtain n where "s = self\<lparr>number_of_bins := Some n\<rparr>"
    by (auto simp: parse_number_of_bins_def except_KeyError_eq_Inr bnd_eq_Inr)
  with Inr show ?thesis
    by (intro exI [of _ n]) simp
qed

subsection \<open>What stays resolved\<close>

lemma log_resolved_frame [simp]:
  "log_resolved d c' (set_quantity c q self) = log_resolved d c' self"
  "log_resolved d c' (set_units c u self) = log_resolved d c' self"
  "log_resolved d c' (set_lim c l self) = log_resolved d c' self"
  "log_resolved d c' (set_label_override c v self) = log_resolved d c' self"
  "log_resolved d c' (set_bins c a self) = log_resolved d c' self"
  "log_resolved d c' (set_line lt lv self) = log_resolved d c' self"
  "log_resolved d c' (self\<lparr>number_of_bins := n\<rparr>) = log_resolved d c' self"
  "c' \<noteq> c \<Longrightarrow> log_resolved d c' (set_log c b self) = log_resolved d c' self"
  by (simp_all add: log_resolved_def)

lemma lim_resolved_frame [simp]:
  "lim_resolved ext d c' (set_quantity c q self) = lim_resolved ext d c' self"
  "lim_resolved ext d c' (set_units c u self) = lim_resolved ext d c' self"
  "lim_resolved ext d c' (set_log c b self) = lim_resolved ext d c' self"
  "lim_resolved ext d c' (set_label_override c v self) = lim_resolved ext d c' self"
  "lim_resolved ext d c' (set_bins c a self) = lim_resolved ext d c' self"
  "lim_resolved ext d c' (set_line lt lv self) = lim_resolved ext d c' self"
  "lim_resolved ext d c' (self\<lparr>number_of_bins := n\<rparr>) = lim_resolved ext d c' self"
  "c' \<noteq> c \<Longrightarrow> lim_resolved ext d c' (set_lim c l self) = lim_resolved ext d c' self"
  by (simp_all add: lim_resolved_def)

lemma units_resolved_frame [simp]:
  "units_resolved ext d c' (set_quantity c q self) = units_resolved ext d c' self"
  "units_resolved ext d c' (set_log c b self) = units_resolved ext d c' self"
  "units_resolved ext d c' (set_lim c l self) = units_resolved ext d c' self"
  "units_resolved ext d c' (set_label_override c v self) = units_resolved ext d c' self"
  "units_resolved ext d c' (set_bins c a self) = units_resolved ext d c' self"
  "units_resolved ext d c' (set_line lt lv self) = units_resolved ext d c' self"
  "units_resolved ext d c' (self\<lparr>number_of_bins := n\<rparr>) = units_resolved ext d c' self"
  "c' \<noteq> c \<Longrightarrow> units_resolved ext d c' (set_units c u self) = units_resolved ext d c' self"
  by (simp_all add: units_resolved_def)

lemma bins_in_axis_units_frame [simp]:
  "bins_in_axis_units c' (set_quantity c q self) = bins_in_axis_units c' self"
  "bins_in_axis_units c' (set_log c b self) = bins_in_axis_units c' self"
  "bins_in_axis_units c' (set_lim c l self) = bins_in_axis_units c' self"
  "bins_in_axis_units c' (set_label_override c v self) = bins_in_axis_units c' self"
  "bins_in_axis_units c' (set_line lt lv self) = bins_in_axis_units c' self"
  "bins_in_axis_units c' (self\<lparr>number_of_bins := n\<rparr>) = bins_in_axis_units c' self"
  "c' \<noteq> c \<Longrightarrow> bins_in_axis_units c' (set_units c u self) = bins_in_axis_units c' self"
  "c' \<noteq> c \<Longrightarrow> bins_in_axis_units c' (set_bins c a self) = bins_in_axis_units c' self"
  by (simp_all add: bins_in_axis_units_def split: option.splits)

lemma no_bins_in_axis_units: "get_bins c self = None \<Longrightarrow> bins_in_axis_units c self"
  by (simp add: bins_in_axis_units_def)

lemma quantity_step:
  assumes "parse_coordinate_quantity ext c self = Inr s"
  shows "\<exists>q u. s = set_units c u (set_quantity c q self)"
    and "units_resolved ext (data self) c s"
  using parse_coordinate_quantity_Inr [OF assms] by (auto simp: units_resolved_def)

lemma log_step:
  assumes "parse_coordinate_log ext c self = Inr s"
  shows "\<exists>b. s = set_log c b self" and "log_resolved (data self) c s"
  using parse_coordinate_log_Inr [OF assms] by (auto simp: log_resolved_def)

lemma limit_step:
  assumes "parse_coordinate_limit ext c self = Inr s"
  shows "\<exists>l. s = set_lim c l self" and "lim_resolved ext (data self) c s"
  using parse_coordinate_limit_Inr [OF assms] by (auto simp: lim_resolved_def)

lemma scatter_coordinate_Inr:
  assumes "scatter_coordinate ext c self = Inr s"
  shows "\<exists>q u b l v.
           s = set_label_override c v (set_lim c l (set_log c b
                 (set_units c u (set_quantity c q self))))"
    and "units_resolved ext (data self) c s"
    and "log_resolved (data self) c s"
    and "lim_resolved ext (data self) c s"
proof -
  from assms obtain s1 s2 s3 where 1: "parse_coordinate_quantity ext c self = Inr s1"
    and 2: "parse_coordinate_log ext c s1 = Inr s2"
    and 3: "parse_coordinate_limit ext c s2 = Inr s3"
    and 4: "parse_coordinate_label_override ext c s3 = Inr s"
    by (auto simp: scatter_coordinate_def bnd_eq_Inr)
  from quantity_step [OF 1] obtain q u where s1: "s1 = set_units c u (set_quantity c q self)"
    and u: "units_resolved ext (data self) c s1" by blast
  from log_step [OF 2] obtain b where s2: "s2 = set_log c b s1"
    and l: "log_resolved (data s1) c s2" by blast
  from limit_step [OF 3] obtain lm where s3: "s3 = set_lim c lm s2"
    and m: "lim_resolved ext (data s2) c s3" by blast
  from parse_coordinate_label_override_Inr [OF 4] obtain v
    where s: "s = set_label_override c v s3" by blast
  show "\<exists>q u b l v.
           s = set_label_override c v (set_lim c l (set_log c b
                 (set_units c u (set_quantity c q self))))"
    using s s3 s2 s1 by blast
  show "units_resolved ext (data self) c s" using u s s3 s2 by simp
  show "log_resolved (data self) c s" using l s s3 s1 by simp
  show "lim_resolved ext (data self) c s" using m s s2 s1 by simp
qed

lemma massfunction_coordinate_Inr:
  assumes "massfunction_coordinate ext c self = Inr s"
  shows "\<exists>b l v. s = set_label_override c v (set_lim c l (set_log c b self))"
    and "log_resolved (data self) c s"
    and "lim_resolved ext (data self) c s"
proof -
  from assms obtain s2 s3 where 2: "parse_coordinate_log ext c self = Inr s2"
    and 3: "parse_coordinate_limit ext c s2 = Inr s3"
    and 4: "parse_coordinate_label_override ext c s3 = Inr s"
    by (auto simp: massfunction_coordinate_def bnd_eq_Inr)
  from log_step [OF 2] obtain b where s2: "s2 = set_log c b self"
    and l: "log_resolved (data self) c s2" by blast
  from limit_step [OF 3] obtain lm where s3: "s3 = set_lim c lm s2"
    and m: "lim_resolved ext (data s2) c s3" by blast
  from parse_coordinate_label_override_Inr [OF 4] obtain v
    where s: "s = set_label_override c v s3" by blast
  show "\<exists>b l v. s = set_label_override c v (set_lim c l (set_log c b self))"
    using s s3 s2 by blast
  show "log_resolved (data self) c s" using l s s3 by simp
  show "lim_resolved ext (data self) c s" using m s s2 by simp
qed

lemma parse_scatter_Inr:
  assumes "parse_scatter ext self = Inr s"
  shows "data s = data self" and "filename s = filename self"
    and "plot_type s = plot_type self" and "number_of_bins s = number_of_bins self"
    and "get_bins c s = get_bins c self"
    and "units_resolved ext (data self) c s"
    and "log_resolved (data self) c s"
    and "lim_resolved ext (data self) c s"
proof -
  from assms obtain s1 s2 where 1: "scatter_coordinate ext X self = Inr s1"
    and 2: "scatter_coordinate ext Y s1 = Inr s2"
    and 3: "parse_lines ext s2 = Inr s"
    by (auto simp: parse_scatter_def bnd_eq_Inr)
  from scatter_coordinate_Inr [OF 1] obtain q u b l v
    where s1: "s1 = set_label_override X v (set_lim X l (set_log X b
                 (set_units X u (set_quantity X q self))))"
      and x: "units_resolved ext (data self) X s1" "log_resolved (data self) X s1"
        "lim_resolved ext (data self) X s1" by blast
  from scatter_coordinate_Inr [OF 2] obtain q' u' b' l' v'
    where s2: "s2 = set_label_override Y v' (set_lim Y l' (set_log Y b'
                 (set_units Y u' (set_quantity Y q' s1))))"
      and y: "units_resolved ext (data s1) Y s2" "log_resolved (data s1) Y s2"
        "lim_resolved ext (data s1) Y s2" by blast
  from parse_lines_Inr [OF 3] obtain w w'
    where s: "s = set_line ''mean'' w' (set_line ''median'' w s2)" by blast
  have d: "data s1 = data self" using s1 by simp
  show "data s = data self" using s s2 s1 by simp
  show "filename s = filename self" using s s2 s1 by simp
  show "plot_type s = plot_type self" using s s2 s1 by simp
  show "number_of_bins s = number_of_bins self" using s s2 s1 by simp
  show "get_bins c s = get_bins c self" using s s2 s1 by simp
  show "units_resolved ext (data self) c s"
    using x(1) y(1) d by (cases c) (simp_all add: s s2)
  show "log_resolved (data self) c s"
    using x(2) y(2) d by (cases c) (simp_all add: s s2)
  show "lim_resolved ext (data self) c s"
    using x(3) y(3) d by (cases c) (simp_all add: s s2)
qed

lemma limit_quantity_units:
  "limit_quantity ext d c key = Inr q \<Longrightarrow>
   bnd (axis_entry d c ''units'') (unit_registry ext) = Inr (q_units q)"
  by (auto simp: limit_quantity_def bnd_eq_Inr unyt_quantity_def)

lemma limit_quantity_key:
  "limit_quantity ext d c key = Inr q \<Longrightarrow> \<exists>v. axis_entry d c key = Inr v"
  by (auto simp: limit_quantity_def bnd_eq_Inr)

lemma histogram_bin_step:
  assumes "parse_coordinate_histogram_bin c self = Inr s"
    and "lim_resolved ext d c self" and "units_resolved ext d c self"
  shows "\<exists>b. s = set_bins c b self" and "bins_in_axis_units c s"
proof -
  from histogram_bin_Inr [OF assms(1)] obtain b n start stop
    where s: "s = set_bins c b self"
      and l: "get_lim c self = Some (Some start, Some stop)"
      and u: "arr_units b = q_units start" by blast
  from assms(2) l have "limit_quantity ext d c ''start'' = Inr start"
    by (simp add: lim_resolved_def)
  then have "bnd (axis_entry d c ''units'') (unit_registry ext) = Inr (q_units start)"
    by (rule limit_quantity_units)
  with assms(3) u show "bins_in_axis_units c s"
    by (auto simp: s units_resolved_def bins_in_axis_units_def split: option.splits)
  show "\<exists>b. s = set_bins c b self" using s by blast
qed

lemma parse_2dhistogram_Inr:
  assumes "parse_2dhistogram ext self = Inr s"
  shows "data s = data self" and "filename s = filename self"
    and "plot_type s = plot_type self"
    and "log_resolved (data self) c s"
    and "bins_in_axis_units c s"
    and "\<exists>n. number_of_bins s = Some n
           \<and> (case subscript (data self) ''number_of_bins'' of
                 Inl (KeyError k) \<Rightarrow> n = 128 | _ \<Rightarrow> True)"
proof -
  from assms obtain s1 s2 s3 where 1: "parse_scatter ext self = Inr s1"
    and 2: "parse_number_of_bins ext s1 = Inr s2"
    and 3: "parse_coordinate_histogram_bin X s2 = Inr s3"
    and 4: "parse_coordinate_histogram_bin Y s3 = Inr s"
    by (auto simp: parse_2dhistogram_def bnd_eq_Inr)
  note sc = parse_scatter_Inr [OF 1]
  from parse_number_of_bins_Inr [OF 2] obtain n
    where s2: "s2 = s1\<lparr>number_of_bins := Some n\<rparr>"
      and n: "case subscript (data s1) ''number_of_bins'' of
                Inl (KeyError k) \<Rightarrow> n = 128 | _ \<Rightarrow> True" by blast
  have r2: "lim_resolved ext (data self) c' s2" "units_resolved ext (data self) c' s2"
    "log_resolved (data self) c' s2" for c'
    using sc(6,7,8) [of c'] by (simp_all add: s2)
  from histogram_bin_step [OF 3 r2(1,2)] obtain b where s3: "s3 = set_bins X b s2"
    and bx: "bins_in_axis_units X s3" by blast
  have r3: "lim_resolved ext (data self) Y s3" "units_resolved ext (data self) Y s3"
    using r2(1,2) [of Y] by (simp_all add: s3)
  from histogram_bin_step [OF 4 r3] obtain b' where s: "s = set_bins Y b' s3"
    and byy: "bins_in_axis_units Y s" by blast
  show "data s = data self" using sc(1) by (simp add: s s3 s2)
  show "filename s = filename self" using sc(2) by (simp add: s s3 s2)
  show "plot_type s = plot_type self" using sc(3) by (simp add: s s3 s2)
  show "log_resolved (data self) c s" using r2(3) [of c] by (simp add: s s3)
  show "bins_in_axis_units c s" using bx byy by (cases c) (simp_all add: s)
  show "\<exists>n. number_of_bins s = Some n
           \<and> (case subscript (data self) ''number_of_bins'' of
                 Inl (KeyError k) \<Rightarrow> n = 128 | _ \<Rightarrow> True)"
    using n sc(1) by (simp add: s s3 s2)
qed

lemma parse_massfunction_Inr:
  assumes "parse_massfunction ext self = Inr s" and "get_bins Y self = None"
  shows "data s = data self" and "filename s = filename self"
    and "plot_type s = plot_type self"
    and "log_resolved (data self) c s"
    and "bins_in_axis_units c s"
    and "\<exists>n. number_of_bins s = Some n
           \<and> (case subscript (data self) ''number_of_bins'' of
                 Inl (KeyError k) \<Rightarrow> n = 128 | _ \<Rightarrow> True)"
proof -
  from assms(1) obtain s1 s2 s3 s4 s5 where 1: "parse_coordinate_quantity ext X self = Inr s1"
    and 2: "set_coordinate_quantity_none ext Y s1 = Inr s2"
    and 3: "massfunction_coordinate ext X s2 = Inr s3"
    and 4: "massfunction_coordinate ext Y s3 = Inr s4"
    and 5: "parse_number_of_bins ext s4 = Inr s5"
    and 6: "parse_coordinate_histogram_bin X s5 = Inr s"
    by (auto simp: parse_massfunction_def bnd_eq_Inr)
  from quantity_step [OF 1] obtain q u where s1: "s1 = set_units X u (set_quantity X q self)"
    and ux: "units_resolved ext (data self) X s1" by blast
  from set_coordinate_quantity_none_Inr [OF 2] obtain u'
    where s2: "s2 = set_units Y u' (set_quantity Y YNull s1)" by blast
  from massfunction_coordinate_Inr [OF 3] obtain b l v
    where s3: "s3 = set_label_override X v (set_lim X l (set_log X b s2))"
      and x3: "log_resolved (data s2) X s3" "lim_resolved ext (data s2) X s3" by blast
  from massfunction_coordinate_Inr [OF 4] obtain b' l' v'
    where s4: "s4 = set_label_override Y v' (set_lim Y l' (set_log Y b' s3))"
      and y4: "log_resolved (data s3) Y s4" by blast
  from parse_number_of_bins_Inr [OF 5] obtain n
    where s5: "s5 = s4\<lparr>number_of_bins := Some n\<rparr>"
      and n: "case subscript (data s4) ''number_of_bins'' of
                Inl (KeyError k) \<Rightarrow> n = 128 | _ \<Rightarrow> True" by blast
  have d: "data s2 = data self" "data s3 = data self" "data s4 = data self"
    by (simp_all add: s4 s3 s2 s1)
  have r5: "lim_resolved ext (data self) X s5" "units_resolved ext (data self) X s5"
    using x3(2) ux d by (simp_all add: s5 s4 s3 s2)
  from histogram_bin_step [OF 6 r5] obtain bb where s: "s = set_bins X bb s5"
    and bx: "bins_in_axis_units X s" by blast
  show "data s = data self" using d by (simp add: s s5)
  show "filename s = filename self" by (simp add: s s5 s4 s3 s2 s1)
  show "plot_type s = plot_type self" by (simp add: s s5 s4 s3 s2 s1)
  show "log_resolved (data self) c s"
    using x3(1) y4 d by (cases c) (simp_all add: s s5 s4)
  have "get_bins Y s = None" using assms(2) by (simp add: s s5 s4 s3 s2 s1)
  with bx show "bins_in_axis_units c s"
    by (cases c) (simp_all add: no_bins_in_axis_units)
  show "\<exists>n. number_of_bins s = Some n
           \<and> (case subscript (data self) ''number_of_bins'' of
                 Inl (KeyError k) \<Rightarrow> n = 128 | _ \<Rightarrow> True)"
    using n d by (simp add: s s5)
qed

subsection \<open>A plot that has been built\<close>

lemma bnd_eq_Inl: "bnd m f = Inl e \<longleftrightarrow> m = Inl e \<or> (\<exists>v. m = Inr v \<and> f v = Inl e)"
  by (cases m) simp_all

lemma built_plot_type:
  assumes "VelociraptorPlot ext name d = Inr p"
  obtains t where "t \<in> set valid_plot_types"
    and "parse_method ext t ((new_plot name d)\<lparr>plot_type := Some (YStr t)\<rparr>) = Inr p"
    and "subscript d ''type'' = Inr (YStr t)
         \<or> (\<exists>k. subscript d ''type'' = Inl (KeyError k)) \<and> t = ''scatter''"
proof -
  let ?self = "new_plot name d"
  from assms obtain s1 where
    s1: "except_KeyError
           (bnd (subscript d ''type'') (\<lambda>t. Inr (?self\<lparr>plot_type := Some t\<rparr>)))
           (Inr (?self\<lparr>plot_type := Some (YStr ''scatter'')\<rparr>)) = Inr s1"
    and r: "(case plot_type s1 of
               None \<Rightarrow> Inl AttributeError
             | Some t \<Rightarrow>
                 if t \<notin> set (map YStr valid_plot_types)
                 then Inl (AutoPlotterError (invalid_type_message ext t))
                 else parse_method ext (py_str ext t) s1) = Inr p"
    by (auto simp: VelociraptorPlot_def parse_data_def bnd_eq_Inr new_plot_def)
  from s1 obtain t0 where t0: "s1 = ?self\<lparr>plot_type := Some t0\<rparr>"
    and src: "subscript d ''type'' = Inr t0
         \<or> (\<exists>k. subscript d ''type'' = Inl (KeyError k)) \<and> t0 = YStr ''scatter''"
    by (auto simp: except_KeyError_eq_Inr bnd_eq_Inr bnd_eq_Inl)
  from r t0 have "t0 \<in> set (map YStr valid_plot_types)"
    and m: "parse_method ext (py_str ext t0) s1 = Inr p"
    by (auto split: if_splits)
  then obtain t where t: "t0 = YStr t" "t \<in> set valid_plot_types" by auto
  show thesis
    using that [of t] t m t0 src by auto
qed

lemma new_plot_fields [simp]:
  "data (new_plot name d) = d" "filename (new_plot name d) = name"
  "get_bins c (new_plot name d) = None"
  by (cases c; simp add: new_plot_def attr_simps)+

lemma built_plot_facts:
  assumes "VelociraptorPlot ext name d = Inr p"
  shows "data p = d" and "filename p = name"
    and "log_resolved d c p" and "bins_in_axis_units c p"
    and "\<exists>t \<in> set valid_plot_types. plot_type p = Some (YStr t)
           \<and> (subscript d ''type'' = Inr (YStr t)
               \<or> (\<exists>k. subscript d ''type'' = Inl (KeyError k)) \<and> t = ''scatter'')"
    and "plot_type p \<noteq> Some (YStr ''scatter'') \<Longrightarrow>
         \<exists>n. number_of_bins p = Some n
           \<and> (case subscript d ''number_of_bins'' of
                 Inl (KeyError k) \<Rightarrow> n = 128 | _ \<Rightarrow> True)"
proof -
  let ?self = "\<lambda>t. (new_plot name d)\<lparr>plot_type := Some (YStr t)\<rparr>"
  from built_plot_type [OF assms] obtain t where v: "t \<in> set valid_plot_types"
    and m: "parse_method ext t (?self t) = Inr p"
    and src: "subscript d ''type'' = Inr (YStr t)
         \<or> (\<exists>k. subscript d ''type'' = Inl (KeyError k)) \<and> t = ''scatter''"
    by blast
  have f: "data (?self t) = d" "filename (?self t) = name" "get_bins c' (?self t) = None"
    "plot_type (?self t) = Some (YStr t)" for c'
    by (simp_all)
  from v consider "t = ''scatter''" | "t = ''2dhistogram''" | "t = ''massfunction''"
    by (auto simp: valid_plot_types_def)
  then have all: "data p = d \<and> filename p = name \<and> log_resolved d c p
      \<and> bins_in_axis_units c p \<and> plot_type p = Some (YStr t)
      \<and> (t \<noteq> ''scatter'' \<longrightarrow> (\<exists>n. number_of_bins p = Some n
           \<and> (case subscript d ''number_of_bins'' of
                 Inl (KeyError k) \<Rightarrow> n = 128 | _ \<Rightarrow> True)))"
  proof cases
    case 1
    with m have "parse_scatter ext (?self t) = Inr p" by (simp add: parse_method_def)
    from parse_scatter_Inr [OF this] 1 f show ?thesis
      by (simp add: no_bins_in_axis_units)
  next
    case 2
    with m have "parse_2dhistogram ext (?self t) = Inr p" by (simp add: parse_method_def)
    from parse_2dhistogram_Inr [OF this] f show ?thesis by simp
  next
    case 3
    with m have "parse_massfunction ext (?self t) = Inr p" by (simp add: parse_method_def)
    from parse_massfunction_Inr [OF this f(3)] f show ?thesis by simp
  qed
  then show "data p = d" "filename p = name" "log_resolved d c p" "bins_in_axis_units c p"
    by simp_all
  from all v src show "\<exists>t \<in> set valid_plot_types. plot_type p = Some (YStr t)
           \<and> (subscript d ''type'' = Inr (YStr t)
               \<or> (\<exists>k. subscript d ''type'' = Inl (KeyError k)) \<and> t = ''scatter'')"
    by blast
  from all show "plot_type p \<noteq> Some (YStr ''scatter'') \<Longrightarrow>
         \<exists>n. number_of_bins p = Some n
           \<and> (case subscript d ''number_of_bins'' of
                 Inl (KeyError k) \<Rightarrow> n = 128 | _ \<Rightarrow> True)"
    by auto
qed

lemma massfunction_default_bins_builds:
  "\<exists>p. VelociraptorPlot sample_externals ''mf'' massfunction_default_bins = Inr p"
  by (simp add: parse_defs sample_externals_def massfunction_default_bins_def linear_axis_def
      Let_def upt_conv_Cons)

text \<open>
  Claim C9. In a plot that has been built, an entry without a \<^verbatim>\<open>type\<close> key has plot
  type \<^verbatim>\<open>scatter\<close>; an axis whose sub-mapping has no \<^verbatim>\<open>log\<close> key is log-scaled;
  and an entry of type \<^verbatim>\<open>2dhistogram\<close> or \<^verbatim>\<open>massfunction\<close> without a
  \<^verbatim>\<open>number_of_bins\<close> key has \<^verbatim>\<open>number_of_bins = 128\<close>.
\<close>

theorem defaults_for_omitted_keys:
  assumes "VelociraptorPlot ext name (YMap m) = Inr p"
  shows "(map_of m ''type'' = None \<longrightarrow> plot_type p = Some (YStr ''scatter''))
       \<and> (map_of m (coord_name c) = Some (YMap ax) \<and> map_of ax ''log'' = None \<longrightarrow>
            get_log c p = Some True)
       \<and> ((map_of m ''type'' = Some (YStr ''2dhistogram'')
             \<or> map_of m ''type'' = Some (YStr ''massfunction''))
            \<and> map_of m ''number_of_bins'' = None \<longrightarrow>
            number_of_bins p = Some 128)"
proof (intro conjI impI)
  note facts = built_plot_facts [OF assms]
  {
    assume "map_of m ''type'' = None"
    with facts(5) show "plot_type p = Some (YStr ''scatter'')" by auto
  next
    assume "map_of m (coord_name c) = Some (YMap ax) \<and> map_of ax ''log'' = None"
    then have "axis_entry (YMap m) c ''log'' = Inl (KeyError ''log'')"
      by (simp add: axis_entry_def)
    with facts(3) [of c] show "get_log c p = Some True"
      by (auto simp: log_resolved_def split: option.splits)
  next
    assume h: "(map_of m ''type'' = Some (YStr ''2dhistogram'')
             \<or> map_of m ''type'' = Some (YStr ''massfunction''))
            \<and> map_of m ''number_of_bins'' = None"
    with facts(5) have "plot_type p \<noteq> Some (YStr ''scatter'')" by auto
    from facts(6) [OF this] h show "number_of_bins p = Some 128" by auto
  }
qed

theorem defaults_for_omitted_keys_witness:
  "(\<exists>p. VelociraptorPlot sample_externals ''masses'' scatter_plain = Inr p
        \<and> plot_type p = Some (YStr ''scatter'')
        \<and> get_log X p = Some True \<and> get_log Y p = Some True)
   \<and> (\<exists>p. VelociraptorPlot sample_externals ''mf'' massfunction_default_bins = Inr p
        \<and> number_of_bins p = Some 128)"
proof -
  obtain p where p: "VelociraptorPlot sample_externals ''masses''
      (YMap [(''x'', plain_axis), (''y'', plain_axis)]) = Inr p"
    using scatter_plain_builds by (auto simp: scatter_plain_def)
  obtain p' where p': "VelociraptorPlot sample_externals ''mf''
      (YMap [(''type'', YStr ''massfunction''), (''x'', linear_axis)]) = Inr p'"
    using massfunction_default_bins_builds by (auto simp: massfunction_default_bins_def)
  let ?ax = "[(''quantity'', YStr ''masses.mass_200crit''), (''units'', YStr ''Solar_Mass'')]"
  have "plot_type p = Some (YStr ''scatter'')" "get_log X p = Some True"
    "get_log Y p = Some True"
    using defaults_for_omitted_keys [OF p, of X ?ax] defaults_for_omitted_keys [OF p, of Y ?ax]
    by (simp_all add: plain_axis_def)
  moreover have "number_of_bins p' = Some 128"
    using defaults_for_omitted_keys [OF p', of X ?ax] by simp
  ultimately show ?thesis
    using p p' by (auto simp: scatter_plain_def massfunction_default_bins_def)
qed

subsection \<open>A 2d histogram needs both limits of both axes\<close>

lemma histogram_bin_limits:
  assumes "parse_coordinate_histogram_bin c self = Inr s" and "lim_resolved ext d c self"
  shows "\<exists>lo hi. limit_quantity ext d c ''start'' = Inr lo
           \<and> limit_quantity ext d c ''end'' = Inr hi"
proof -
  from histogram_bin_Inr [OF assms(1)] obtain start stop
    where "get_lim c self = Some (Some start, Some stop)" by blast
  with assms(2) show ?thesis by (simp add: lim_resolved_def)
qed

lemma parse_2dhistogram_limits:
  assumes "parse_2dhistogram ext self = Inr s"
  shows "\<exists>lo hi. limit_quantity ext (data self) c ''start'' = Inr lo
           \<and> limit_quantity ext (data self) c ''end'' = Inr hi"
proof -
  from assms obtain s1 s2 s3 where 1: "parse_scatter ext self = Inr s1"
    and 2: "parse_number_of_bins ext s1 = Inr s2"
    and 3: "parse_coordinate_histogram_bin X s2 = Inr s3"
    and 4: "parse_coordinate_histogram_bin Y s3 = Inr s"
    by (auto simp: parse_2dhistogram_def bnd_eq_Inr)
  note sc = parse_scatter_Inr [OF 1]
  from parse_number_of_bins_Inr [OF 2] obtain n
    where s2: "s2 = s1\<lparr>number_of_bins := Some n\<rparr>" by blast
  have r2: "lim_resolved ext (data self) c' s2" for c'
    using sc(8) [of c'] by (simp add: s2)
  from histogram_bin_Inr [OF 3] obtain b where s3: "s3 = set_bins X b s2" by blast
  have r3: "lim_resolved ext (data self) Y s3"
    using r2 [of Y] by (simp add: s3)
  show ?thesis
  proof (cases c)
    case X
    with histogram_bin_limits [OF 3 r2] show ?thesis by simp
  next
    case Y
    with histogram_bin_limits [OF 4 r3] show ?thesis by simp
  qed
qed

lemma histogram_bin_outcome:
  assumes "lim_resolved ext d c self" and "log_resolved d c self"
    and "number_of_bins self = Some n"
  shows "(\<exists>s. parse_coordinate_histogram_bin c self = Inr s)
       \<or> parse_coordinate_histogram_bin c self = Inl TypeError
       \<or> parse_coordinate_histogram_bin c self = Inl ValueError"
proof -
  from assms(1) obtain lo hi where l: "get_lim c self = Some (lo, hi)"
    and lo: "\<And>q. lo = Some q \<Longrightarrow> limit_quantity ext d c ''start'' = Inr q"
    and hi: "\<And>q. hi = Some q \<Longrightarrow> limit_quantity ext d c ''end'' = Inr q"
    by (auto simp: lim_resolved_def split: option.splits)
  from assms(2) obtain lg where g: "get_log c self = Some lg"
    by (auto simp: log_resolved_def split: option.splits)
  show ?thesis
  proof (cases "lo = None \<or> hi = None")
    case True
    with l g assms(3) show ?thesis
      by (cases lg; cases lo; cases hi)
        (auto simp: parse_coordinate_histogram_bin_def)
  next
    case False
    then obtain s e where se: "lo = Some s" "hi = Some e" by auto
    have "q_units s = q_units e"
      using limit_quantity_units [OF lo [OF se(1)]] limit_quantity_units [OF hi [OF se(2)]]
      by simp
    with l g assms(3) se show ?thesis
      by (cases lg; cases "n < 0")
        (auto simp: parse_coordinate_histogram_bin_def logspace_def linspace_def Let_def)
  qed
qed

text \<open>
  Claim C3, as amended. An entry of type \<^verbatim>\<open>2dhistogram\<close> one of whose axes has no
  \<^verbatim>\<open>start\<close> key or no \<^verbatim>\<open>end\<close> key is never built: the constructor raises. When
  the scatter procedure and the bin count have gone through, the exception is the
  \<^verbatim>\<open>TypeError\<close> (or, for a negative bin count, the \<^verbatim>\<open>ValueError\<close>) of the
  numeric library.
\<close>

theorem histogram2d_without_limit_fails:
  assumes "map_of m ''type'' = Some (YStr ''2dhistogram'')"
    and "map_of m (coord_name c) = Some (YMap ax)"
    and "map_of ax ''start'' = None \<or> map_of ax ''end'' = None"
  shows "\<exists>e. VelociraptorPlot ext name (YMap m) = Inl e
           \<and> ((\<exists>s. bnd (parse_scatter ext
                          ((new_plot name (YMap m))\<lparr>plot_type := Some (YStr ''2dhistogram'')\<rparr>))
                      (parse_number_of_bins ext) = Inr s) \<longrightarrow>
                e = TypeError \<or> e = ValueError)"
proof -
  let ?s0 = "(new_plot name (YMap m))\<lparr>plot_type := Some (YStr ''2dhistogram'')\<rparr>"
  have run: "VelociraptorPlot ext name (YMap m) = parse_2dhistogram ext ?s0"
    using assms(1) parse_data_valid_type [of m "''2dhistogram''" ext name]
    by (simp add: VelociraptorPlot_def valid_plot_types_def parse_method_def)
  have fails: "\<exists>e. parse_2dhistogram ext ?s0 = Inl e"
  proof (cases "parse_2dhistogram ext ?s0")
    case (Inl e)
    then show ?thesis by blast
  next
    case (Inr p)
    from parse_2dhistogram_limits [OF this, of c] obtain lo hi
      where "limit_quantity ext (YMap m) c ''start'' = Inr lo"
        and "limit_quantity ext (YMap m) c ''end'' = Inr hi"
      by auto
    then obtain v w where "axis_entry (YMap m) c ''start'' = Inr v"
      and "axis_entry (YMap m) c ''end'' = Inr w"
      by (auto dest!: limit_quantity_key)
    with assms(2,3) have False by (auto simp: axis_entry_def)
    then show ?thesis ..
  qed
  then obtain e where e: "parse_2dhistogram ext ?s0 = Inl e" by blast
  have "e = TypeError \<or> e = ValueError"
    if "bnd (parse_scatter ext ?s0) (parse_number_of_bins ext) = Inr s2" for s2
  proof -
    from that obtain s1 where 1: "parse_scatter ext ?s0 = Inr s1"
      and 2: "parse_number_of_bins ext s1 = Inr s2"
      by (auto simp: bnd_eq_Inr)
    note sc = parse_scatter_Inr [OF 1]
    from parse_number_of_bins_Inr [OF 2] obtain n
      where s2: "s2 = s1\<lparr>number_of_bins := Some n\<rparr>" by blast
    have r2: "lim_resolved ext (YMap m) c' s2" "log_resolved (YMap m) c' s2" for c'
      using sc(7,8) [of c'] by (simp_all add: s2)
    have n2: "number_of_bins s2 = Some n" by (simp add: s2)
    from e 1 2 have bins: "bnd (parse_coordinate_histogram_bin X s2)
        (for_each parse_coordinate_histogram_bin [Y]) = Inl e"
      by (simp add: parse_2dhistogram_def)
    show ?thesis
    proof (cases "parse_coordinate_histogram_bin X s2")
      case (Inl e')
      with bins histogram_bin_outcome [OF r2 n2, of X] show ?thesis by auto
    next
      case (Inr s3)
      from histogram_bin_Inr [OF Inr] obtain b where s3: "s3 = set_bins X b s2" by blast
      have r3: "lim_resolved ext (YMap m) Y s3" "log_resolved (YMap m) Y s3"
        "number_of_bins s3 = Some n"
        using r2 [of Y] n2 by (simp_all add: s3)
      from bins Inr have "parse_coordinate_histogram_bin Y s3 = Inl e"
        by (auto simp: bnd_eq_Inl)
      with histogram_bin_outcome [OF r3] show ?thesis by auto
    qed
  qed
  with e run show ?thesis by auto
qed

lemma histogram2d_open_first_steps:
  "\<exists>s. bnd (parse_scatter sample_externals
              ((new_plot ''h2d''
                 (YMap [(''type'', YStr ''2dhistogram''), (''x'', open_axis), (''y'', log_axis)]))
                 \<lparr>plot_type := Some (YStr ''2dhistogram'')\<rparr>))
            (parse_number_of_bins sample_externals) = Inr s"
  by (simp add: parse_defs sample_externals_def open_axis_def log_axis_def)

theorem histogram2d_without_limit_fails_witness:
  "map_of [(''quantity'', YStr ''masses.mass_200crit''), (''units'', YStr ''Solar_Mass''),
           (''start'', YInt 1)] ''end'' = None
   \<and> (\<exists>e. VelociraptorPlot sample_externals ''h2d'' histogram2d_open = Inl e
          \<and> (e = TypeError \<or> e = ValueError))"
  using histogram2d_without_limit_fails
    [where m = "[(''type'', YStr ''2dhistogram''), (''x'', open_axis), (''y'', log_axis)]"
       and c = X
       and ax = "[(''quantity'', YStr ''masses.mass_200crit''),
                  (''units'', YStr ''Solar_Mass''), (''start'', YInt 1)]"
       and ext = sample_externals and name = "''h2d''"]
    histogram2d_open_first_steps
  by (simp add: histogram2d_open_def open_axis_def)

theorem histogram2d_without_limit_raises_TypeError:
  "VelociraptorPlot sample_externals ''h2d'' histogram2d_open = Inl TypeError"
  by (simp add: parse_defs sample_externals_def histogram2d_open_def open_axis_def log_axis_def)

subsection \<open>Rendering leaves the plot object as it was\<close>

lemma rbind_keeps:
  assumes "snd (m p) = p" and "\<And>v. snd (f v p) = p"
  shows "snd (rbind m f p) = p"
proof (cases "m p")
  case (Pair r p')
  with assms(1) have "p' = p" by simp
  with Pair assms(2) show ?thesis
    by (cases r) (simp_all add: rbind_def)
qed

lemma basic_steps_keep [simp]:
  "snd (read_attr field p) = p" "snd (pure_step r p) = p" "snd (call_step r' p) = p"
  by (simp_all add: read_attr_def pure_step_def call_step_def)

lemma catalogue_quantity_keeps [simp]: "snd (catalogue_quantity ext col c p) = p"
  unfolding catalogue_quantity_def by (intro rbind_keeps basic_steps_keep)

lemma set_scales_and_limits_keeps [simp]: "snd (set_scales_and_limits col p) = p"
  unfolding set_scales_and_limits_def by (intro rbind_keeps basic_steps_keep)

lemma add_lines_to_axes_keeps [simp]: "snd (add_lines_to_axes col xs ys p) = p"
  unfolding add_lines_to_axes_def by (intro rbind_keeps basic_steps_keep)

lemma fscale_one [simp]: "fscale 1 f = f"
  by (cases f) simp_all

lemma set_bins_same: "get_bins c p = Some b \<Longrightarrow> set_bins c b p = p"
  by (cases c) (simp_all add: attr_simps)

lemma convert_to_units_same:
  assumes "conversion_factor ext (q_units u) (q_units u) = Inr 1"
    and "arr_units b = q_units u"
  shows "convert_to_units ext b u = Inr b"
  using assms by (simp add: convert_to_units_def map_idI)

lemma convert_bins_keeps:
  assumes "bins_in_axis_units c p" and "\<forall>u. conversion_factor ext u u = Inr 1"
  shows "snd (convert_bins ext c p) = p"
proof (cases "get_bins c p")
  case None
  then show ?thesis
    by (simp add: convert_bins_def rbind_def read_attr_def)
next
  case (Some b)
  with assms(1) obtain u where u: "get_units c p = Some u" "arr_units b = q_units u"
    by (auto simp: bins_in_axis_units_def split: option.splits)
  from assms(2) have "conversion_factor ext (q_units u) (q_units u) = Inr 1" by simp
  from convert_to_units_same [OF this u(2)] Some u(1) show ?thesis
    by (simp add: convert_bins_def rbind_def read_attr_def pure_step_def set_bins_same)
qed

lemma make_plot_scatter_keeps: "snd (make_plot_scatter ext col p) = p"
  unfolding make_plot_scatter_def
  by (intro rbind_keeps basic_steps_keep catalogue_quantity_keeps
      set_scales_and_limits_keeps add_lines_to_axes_keeps)

lemma make_plot_2dhistogram_keeps:
  assumes "bins_in_axis_units X p" and "bins_in_axis_units Y p"
    and "\<forall>u. conversion_factor ext u u = Inr 1"
  shows "snd (make_plot_2dhistogram ext col p) = p"
  unfolding make_plot_2dhistogram_def
  by (intro rbind_keeps basic_steps_keep catalogue_quantity_keeps
      set_scales_and_limits_keeps add_lines_to_axes_keeps
      convert_bins_keeps [OF assms(1,3)] convert_bins_keeps [OF assms(2,3)])

lemma make_plot_massfunction_keeps:
  assumes "bins_in_axis_units X p" and "\<forall>u. conversion_factor ext u u = Inr 1"
  shows "snd (make_plot_massfunction ext col p) = p"
  unfolding make_plot_massfunction_def
  by (intro rbind_keeps basic_steps_keep catalogue_quantity_keeps
      set_scales_and_limits_keeps convert_bins_keeps [OF assms])

lemma make_plot_keeps:
  assumes "bins_in_axis_units X p" and "bins_in_axis_units Y p"
    and "\<forall>u. conversion_factor ext u u = Inr 1"
  shows "snd (make_plot ext col directory file_extension p) = p"
proof -
  have "snd (make_plot_method ext col t p) = p" for t
    using make_plot_scatter_keeps [of ext col p]
      make_plot_2dhistogram_keeps [OF assms, of col]
      make_plot_massfunction_keeps [OF assms(1,3), of col]
    by (simp add: make_plot_method_def)
  then show ?thesis
    unfolding make_plot_def by (intro rbind_keeps basic_steps_keep) simp_all
qed

text \<open>
  Claim C5. Rendering a plot that the constructor has built leaves every attribute of the
  plot object as it was, the bin arrays included: the conversions that
  \<^verbatim>\<open>make_plot\<close> makes in place on \<^verbatim>\<open>x_bins\<close> and \<^verbatim>\<open>y_bins\<close> are into the unit
  the bins already have. The unit library is taken to convert a unit into itself with
  factor one.
\<close>

theorem make_plot_leaves_plot_unchanged:
  assumes "VelociraptorPlot ext name d = Inr p"
    and "\<forall>u. conversion_factor ext u u = Inr 1"
  shows "snd (make_plot ext col directory file_extension p) = p"
  using make_plot_keeps [OF built_plot_facts(4) [OF assms(1)] built_plot_facts(4) [OF assms(1)]
      assms(2)]
  by simp

lemmas render_defs =
  make_plot_def make_plot_method_def make_plot_scatter_def make_plot_2dhistogram_def
  make_plot_massfunction_def catalogue_quantity_def convert_bins_def convert_to_units_def
  set_scales_and_limits_def add_lines_to_axes_def rbind_def pure_step_def call_step_def
  read_attr_def

lemma histogram2d_linear_renders:
  "case VelociraptorPlot sample_externals ''h2d'' histogram2d_linear of
     Inl e \<Rightarrow> False
   | Inr p \<Rightarrow>
       fst (make_plot sample_externals sample_collaborators ''plots'' ''png'' p) = Inr ()
       \<and> x_bins p = Some \<lparr>arr_values = [Fin 0, Fin 5, Fin 10], arr_units = ''Solar_Mass''\<rparr>
       \<and> y_bins p = Some \<lparr>arr_values = [Fin 0, Fin 5, Fin 10], arr_units = ''Solar_Mass''\<rparr>"
  by (simp add: parse_defs render_defs sample_externals_def sample_collaborators_def
      histogram2d_linear_def linear_axis_def Let_def upt_conv_Cons)

theorem make_plot_leaves_plot_unchanged_witness:
  "(\<forall>u. conversion_factor sample_externals u u = Inr 1)
   \<and> (\<exists>p. VelociraptorPlot sample_externals ''h2d'' histogram2d_linear = Inr p
        \<and> x_bins p = Some \<lparr>arr_values = [Fin 0, Fin 5, Fin 10], arr_units = ''Solar_Mass''\<rparr>
        \<and> y_bins p = Some \<lparr>arr_values = [Fin 0, Fin 5, Fin 10], arr_units = ''Solar_Mass''\<rparr>
        \<and> fst (make_plot sample_externals sample_collaborators ''plots'' ''png'' p) = Inr ()
        \<and> snd (make_plot sample_externals sample_collaborators ''plots'' ''png'' p) = p)"
proof -
  have c: "\<forall>u. conversion_factor sample_externals u u = Inr 1"
    by (simp add: sample_externals_def)
  obtain p where p: "VelociraptorPlot sample_externals ''h2d'' histogram2d_linear = Inr p"
    and r: "fst (make_plot sample_externals sample_collaborators ''plots'' ''png'' p) = Inr ()"
    and b: "x_bins p = Some \<lparr>arr_values = [Fin 0, Fin 5, Fin 10], arr_units = ''Solar_Mass''\<rparr>"
      "y_bins p = Some \<lparr>arr_values = [Fin 0, Fin 5, Fin 10], arr_units = ''Solar_Mass''\<rparr>"
    using histogram2d_linear_renders by (auto split: sum.splits)
  show ?thesis
    using make_plot_leaves_plot_unchanged
      [OF p c, of sample_collaborators "''plots''" "''png''"] p r b c
    by blast
qed

end
